theory Spec2Isabelle
  imports Complex_Main
begin

section \<open>Python values used by the matchers\<close>

text \<open>
  The catalogue records are Python dictionaries loaded from JSON. A key is modelled as an
  optional field: \<open>None\<close> is an absent key, \<open>Some v\<close> a key holding a value of the
  field's type. Text is a \<open>string\<close> holding the UTF-8 bytes of the Python text; case
  mapping and the character classes are those of Python on ASCII text. An exception is a
  value of type \<open>error\<close> on the left of a sum.
\<close>

datatype error = ValueError | IndexError | ZeroDivisionError | KeyError

definition is_space :: "char \<Rightarrow> bool" where
  "is_space c = (let n = (of_char c :: nat) in (9 \<le> n \<and> n \<le> 13) \<or> (28 \<le> n \<and> n \<le> 32))"

definition is_digit :: "char \<Rightarrow> bool" where
  "is_digit c = (let n = (of_char c :: nat) in 48 \<le> n \<and> n \<le> 57)"

definition upper_char :: "char \<Rightarrow> char" where
  "upper_char c = (let n = (of_char c :: nat) in if 97 \<le> n \<and> n \<le> 122 then char_of (n - 32) else c)"

definition lower_char :: "char \<Rightarrow> char" where
  "lower_char c = (let n = (of_char c :: nat) in if 65 \<le> n \<and> n \<le> 90 then char_of (n + 32) else c)"

definition upper :: "string \<Rightarrow> string" where
  "upper s = map upper_char s"

definition lower :: "string \<Rightarrow> string" where
  "lower s = map lower_char s"

text \<open>\<open>s.strip()\<close>\<close>

definition strip :: "string \<Rightarrow> string" where
  "strip s = rev (dropWhile is_space (rev (dropWhile is_space s)))"

text \<open>\<open>s.startswith(p)\<close> and the substring test \<open>sub in s\<close>\<close>

fun starts_with :: "string \<Rightarrow> string \<Rightarrow> bool" where
  "starts_with [] s = True"
| "starts_with (p # ps) [] = False"
| "starts_with (p # ps) (x # xs) = (p = x \<and> starts_with ps xs)"

fun contains :: "string \<Rightarrow> string \<Rightarrow> bool" where
  "contains sub [] = (sub = [])"
| "contains sub (x # xs) = (starts_with sub (x # xs) \<or> contains sub xs)"

text \<open>
  \<open>s.replace(old, new)\<close> for a non-empty \<open>old\<close>: occurrences are replaced from the
  left, without overlap. The counter is the number of characters of a found occurrence
  still to be skipped.
\<close>

fun replace_go :: "string \<Rightarrow> string \<Rightarrow> nat \<Rightarrow> string \<Rightarrow> string" where
  "replace_go old new k [] = []"
| "replace_go old new (Suc k) (x # xs) = replace_go old new k xs"
| "replace_go old new 0 (x # xs) =
     (if starts_with old (x # xs) then new @ replace_go old new (length old - 1) xs
      else x # replace_go old new 0 xs)"

definition replace :: "string \<Rightarrow> string \<Rightarrow> string \<Rightarrow> string" where
  "replace old new s = replace_go old new 0 s"

text \<open>\<open>s.split()\<close>: the maximal runs of non-whitespace characters\<close>

fun split_go :: "string \<Rightarrow> string \<Rightarrow> string list" where
  "split_go cur [] = (if cur = [] then [] else [rev cur])"
| "split_go cur (x # xs) =
     (if is_space x then (if cur = [] then split_go [] xs else rev cur # split_go [] xs)
      else split_go (x # cur) xs)"

definition split :: "string \<Rightarrow> string list" where
  "split s = split_go [] s"

text \<open>\<open>s.split(sep)\<close> for a one-character separator: empty pieces are kept\<close>

fun split_on_go :: "char \<Rightarrow> string \<Rightarrow> string \<Rightarrow> string list" where
  "split_on_go sep cur [] = [rev cur]"
| "split_on_go sep cur (x # xs) =
     (if x = sep then rev cur # split_on_go sep [] xs else split_on_go sep (x # cur) xs)"

definition split_on :: "char \<Rightarrow> string \<Rightarrow> string list" where
  "split_on sep s = split_on_go sep [] s"

text \<open>\<open>sep.join(xs)\<close>\<close>

fun join :: "string \<Rightarrow> string list \<Rightarrow> string" where
  "join sep [] = []"
| "join sep [x] = x"
| "join sep (x # y # ys) = x @ sep @ join sep (y # ys)"

text \<open>\<open>s.isdigit()\<close>\<close>

definition isdigit :: "string \<Rightarrow> bool" where
  "isdigit s = (s \<noteq> [] \<and> list_all is_digit s)"

text \<open>Truthiness of an optional text, and \<open>d.get(key, '')\<close>\<close>

definition truthy :: "string option \<Rightarrow> bool" where
  "truthy v = (case v of None \<Rightarrow> False | Some s \<Rightarrow> s \<noteq> [])"

definition get_str :: "string option \<Rightarrow> string" where
  "get_str v = (case v of None \<Rightarrow> [] | Some s \<Rightarrow> s)"

text \<open>Truthiness of an optional number: \<open>None\<close> and zero are false\<close>

definition truthy_num :: "rat option \<Rightarrow> bool" where
  "truthy_num v = (case v of None \<Rightarrow> False | Some x \<Rightarrow> x \<noteq> 0)"

text \<open>Decimal numerals: \<open>str(n)\<close> for an integer\<close>

definition digit_char :: "nat \<Rightarrow> char" where
  "digit_char d = char_of (48 + d)"

function str_nat :: "int \<Rightarrow> string" where
  "str_nat n =
     (if n < 10 then [digit_char (nat n)]
      else str_nat (n div 10) @ [digit_char (nat (n mod 10))])"
  by pat_completeness auto
termination
  by (relation "measure nat") auto

definition str_int :: "int \<Rightarrow> string" where
  "str_int i = (if i < 0 then CHR ''-'' # str_nat (- i) else str_nat i)"

text \<open>The value of a run of decimal digits\<close>

definition digits_value :: "string \<Rightarrow> int" where
  "digits_value s = foldl (\<lambda>acc c. 10 * acc + (of_char c - 48)) 0 s"

section \<open>Double-precision arithmetic\<close>

text \<open>
  A Python \<open>float\<close> is an IEEE 754 double. A finite double is modelled by the rational
  number it denotes, and an arithmetic operation by the exact operation followed by
  rounding to the nearest double, ties to the even significand (53 bits). Exponent
  overflow and subnormal numbers are outside the model.
\<close>

definition round_half_even :: "rat \<Rightarrow> int" where
  "round_half_even x =
     (let n = \<lfloor>x\<rfloor>; r = x - of_int n
      in if r < 1 / 2 then n else if 1 / 2 < r then n + 1 else if even n then n else n + 1)"

function ilog2 :: "int \<Rightarrow> int" where
  "ilog2 n = (if n < 2 then 0 else 1 + ilog2 (n div 2))"
  by pat_completeness auto
termination
  by (relation "measure nat") auto

definition pow2 :: "int \<Rightarrow> rat" where
  "pow2 k = (if 0 \<le> k then 2 ^ nat k else 1 / 2 ^ nat (- k))"

text \<open>The binary exponent \<open>e\<close> of a positive rational: \<open>2^e \<le> x < 2^(e+1)\<close>\<close>

definition float_exponent :: "rat \<Rightarrow> int" where
  "float_exponent x =
     (let (p, q) = quotient_of x;
          k = ilog2 p - ilog2 q
      in if pow2 k \<le> x then k else k - 1)"

definition rd :: "rat \<Rightarrow> rat" where
  "rd x =
     (if x = 0 then 0
      else let u = pow2 (float_exponent \<bar>x\<bar> - 52)
           in sgn x * of_int (round_half_even (\<bar>x\<bar> / u)) * u)"

definition fdiv :: "rat \<Rightarrow> rat \<Rightarrow> rat" where
  "fdiv a b = rd (a / b)"

definition fmul :: "rat \<Rightarrow> rat \<Rightarrow> rat" where
  "fmul a b = rd (a * b)"

definition fsub :: "rat \<Rightarrow> rat \<Rightarrow> rat" where
  "fsub a b = rd (a - b)"

text \<open>
  \<open>f"{x:.1f}"\<close>: the value rounded to one decimal, ties to even, a minus sign for a
  negative value.
\<close>

definition fmt1 :: "rat \<Rightarrow> string" where
  "fmt1 x =
     (let n = round_half_even (\<bar>x\<bar> * 10)
      in (if x < 0 then ''-'' else '''') @ str_nat (n div 10) @ ''.'' @ str_nat (n mod 10))"

text \<open>\<open>round(x, 1)\<close>\<close>

definition round1 :: "rat \<Rightarrow> rat" where
  "round1 x = rd (of_int (round_half_even (x * 10)) / 10)"

section \<open>Regular expressions\<close>

text \<open>
  The patterns of the source are sequences of literal characters, an optional character,
  and repetitions of the classes \<open>\d\<close> and \<open>\s\<close>, with at most one group. In each of
  them a repetition is followed by an item that cannot begin with a character of the
  repeated class, so taking the longest run at each repetition is the match that Python's
  backtracking search finds. \<open>re.search\<close> tries the start positions from the left.
\<close>

datatype cclass = Digit | Space

datatype re_item = Lit char | Opt char | Star cclass | Plus cclass | Times nat cclass

definition in_class :: "cclass \<Rightarrow> char \<Rightarrow> bool" where
  "in_class k c = (case k of Digit \<Rightarrow> is_digit c | Space \<Rightarrow> is_space c)"

definition lit_eq :: "bool \<Rightarrow> char \<Rightarrow> char \<Rightarrow> bool" where
  "lit_eq ignorecase p c = (if ignorecase then upper_char p = upper_char c else p = c)"

definition consumed :: "string \<Rightarrow> (string \<times> string) option \<Rightarrow> (string \<times> string) option" where
  "consumed a r = (case r of None \<Rightarrow> None | Some (m, rest) \<Rightarrow> Some (a @ m, rest))"

text \<open>Match a sequence of items at the start of a text: the matched text and the rest\<close>

fun re_run :: "bool \<Rightarrow> re_item list \<Rightarrow> string \<Rightarrow> (string \<times> string) option" where
  "re_run ic [] s = Some ([], s)"
| "re_run ic (Lit p # items) s =
     (case s of [] \<Rightarrow> None
      | c # cs \<Rightarrow> if lit_eq ic p c then consumed [c] (re_run ic items cs) else None)"
| "re_run ic (Opt p # items) s =
     (case s of [] \<Rightarrow> re_run ic items []
      | c # cs \<Rightarrow> if lit_eq ic p c then consumed [c] (re_run ic items cs)
                 else re_run ic items (c # cs))"
| "re_run ic (Star k # items) s =
     consumed (takeWhile (in_class k) s) (re_run ic items (dropWhile (in_class k) s))"
| "re_run ic (Plus k # items) s =
     (if takeWhile (in_class k) s = [] then None
      else consumed (takeWhile (in_class k) s) (re_run ic items (dropWhile (in_class k) s)))"
| "re_run ic (Times n k # items) s =
     (if n \<le> length s \<and> list_all (in_class k) (take n s)
      then consumed (take n s) (re_run ic items (drop n s)) else None)"

text \<open>
  A pattern is the items before the group, the items of the group and the items after
  it. A match is the pair of \<open>group(0)\<close> and \<open>group(1)\<close>.
\<close>

type_synonym pattern = "re_item list \<times> re_item list \<times> re_item list"

definition re_match_at :: "bool \<Rightarrow> pattern \<Rightarrow> string \<Rightarrow> (string \<times> string) option" where
  "re_match_at ic pat s =
     (case pat of (pre, grp, post) \<Rightarrow>
        (case re_run ic pre s of None \<Rightarrow> None
         | Some (a, s1) \<Rightarrow>
            (case re_run ic grp s1 of None \<Rightarrow> None
             | Some (g, s2) \<Rightarrow>
                (case re_run ic post s2 of None \<Rightarrow> None
                 | Some (b, s3) \<Rightarrow> Some (a @ g @ b, g)))))"

fun re_search :: "bool \<Rightarrow> pattern \<Rightarrow> string \<Rightarrow> (string \<times> string) option" where
  "re_search ic pat [] = re_match_at ic pat []"
| "re_search ic pat (c # cs) =
     (case re_match_at ic pat (c # cs) of Some m \<Rightarrow> Some m | None \<Rightarrow> re_search ic pat cs)"

definition lits :: "string \<Rightarrow> re_item list" where
  "lits s = map Lit s"

section \<open>Catalogue records\<close>

text \<open>
  One record type holds the keys that the matchers and the extractor read or write. The
  key \<open>size\<close> of a distributor fitting is the field \<open>size_f\<close>; \<open>DN\<close> and \<open>dn\<close> are
  different keys, as in the source.
\<close>

record product =
  supplier :: "string option"
  model :: "string option"
  reference :: "string option"
  article_number :: "string option"
  category :: "string option"
  url :: "string option"
  dn :: "string option"
  inch_size :: "string option"
  working_pressure_mpa :: "rat option"
  working_pressure_bar :: "rat option"
  burst_pressure_mpa :: "rat option"
  standard :: "string option"
  construction :: "string option"
  inner_diameter_mm :: "rat option"
  outer_diameter_mm :: "rat option"
  angle :: "string option"
  series :: "string option"
  hose_size_mm :: "string option"
  seat_type :: "string option"
  connection_type :: "string option"
  identification :: "string option"
  gender :: "string option"
  thread_type :: "string option"
  dash_size :: "string option"
  size_f :: "string option"
  DN :: "string option"

definition empty_product :: product where
  "empty_product =
     \<lparr>supplier = None, model = None, reference = None, article_number = None,
      category = None, url = None, dn = None, inch_size = None,
      working_pressure_mpa = None, working_pressure_bar = None, burst_pressure_mpa = None,
      standard = None, construction = None, inner_diameter_mm = None,
      outer_diameter_mm = None, angle = None, series = None, hose_size_mm = None,
      seat_type = None, connection_type = None, identification = None, gender = None,
      thread_type = None, dash_size = None, size_f = None, DN = None\<rparr>"

text \<open>Truthiness of a dictionary: it has a key\<close>

definition dict_nonempty :: "product \<Rightarrow> bool" where
  "dict_nonempty p = (p \<noteq> empty_product)"

definition num_of :: "rat option \<Rightarrow> rat" where
  "num_of v = (case v of None \<Rightarrow> 0 | Some x \<Rightarrow> x)"

text \<open>\<open>a or b\<close> on two optional numbers\<close>

definition por :: "rat option \<Rightarrow> rat option \<Rightarrow> rat option" where
  "por a b = (if truthy_num a then a else b)"

definition and_then :: "error + 'a \<Rightarrow> ('a \<Rightarrow> error + 'b) \<Rightarrow> error + 'b" where
  "and_then r f = (case r of Inl e \<Rightarrow> Inl e | Inr v \<Rightarrow> f v)"

text \<open>The sign of approximate equality in the reason texts, in UTF-8\<close>

definition approx_sign :: string where
  "approx_sign = [char_of (226 :: nat), char_of (137 :: nat), char_of (136 :: nat)]"

section \<open>Hose matcher: \<open>ProductMatcher\<close>\<close>

text \<open>
  The running values of \<open>_calculate_match_score\<close>: \<open>score\<close>, \<open>max_score\<close> and
  \<open>reasons\<close>. The function is given section by section, in the order of the source.
  The builtin \<open>int\<close> on a text is the parameter \<open>int_of\<close>.
\<close>

type_synonym tally = "int \<times> int \<times> string list"

text \<open>Critical pre-check: construction type compatibility. The result is the rejection text.\<close>

definition construction_gate :: "product \<Rightarrow> product \<Rightarrow> string option" where
  "construction_gate balflex heizmann =
     (let balflex_const = lower (get_str (construction balflex));
          heizmann_const = lower (get_str (construction heizmann))
      in if balflex_const \<noteq> [] \<and> heizmann_const \<noteq> [] then
           (if contains ''textile'' balflex_const \<and> contains ''wire'' heizmann_const
            then Some ''Construction mismatch: textile vs wire - INCOMPATIBLE''
            else if contains ''wire'' balflex_const \<and> contains ''textile'' heizmann_const
            then Some ''Construction mismatch: wire vs textile - INCOMPATIBLE''
            else if contains ''spiral'' balflex_const \<noteq> contains ''spiral'' heizmann_const
            then Some ''Construction mismatch: spiral vs non-spiral - INCOMPATIBLE''
            else None)
         else None)"

text \<open>1. DN (30 points)\<close>

definition score_dn :: "(string \<Rightarrow> error + int) \<Rightarrow> product \<Rightarrow> product \<Rightarrow> tally \<Rightarrow> error + tally" where
  "score_dn int_of balflex heizmann t =
     (case t of (score, max_score, reasons) \<Rightarrow>
        if truthy (dn balflex) \<and> truthy (dn heizmann) then
          (if get_str (dn balflex) = get_str (dn heizmann)
           then Inr (score + 30, max_score + 30,
                     reasons @ [''DN match: '' @ get_str (dn balflex)])
           else and_then (int_of (replace ''DN'' [] (get_str (dn balflex)))) (\<lambda>balflex_dn.
                and_then (int_of (replace ''DN'' [] (get_str (dn heizmann)))) (\<lambda>heizmann_dn.
                  if \<bar>balflex_dn - heizmann_dn\<bar> \<le> 2
                  then Inr (score + 15, max_score + 30,
                            reasons @ [''DN close: '' @ get_str (dn balflex) @ '' ''
                                       @ approx_sign @ '' '' @ get_str (dn heizmann)])
                  else Inr (score, max_score + 30, reasons))))
        else Inr (score, max_score + 30, reasons))"

text \<open>2. Working pressure (25 points)\<close>

definition pressure_in_mpa :: "product \<Rightarrow> rat \<Rightarrow> rat" where
  "pressure_in_mpa p pressure =
     (if working_pressure_bar p \<noteq> None then fdiv pressure 10 else pressure)"

definition diff_percent :: "rat \<Rightarrow> rat \<Rightarrow> error + rat" where
  "diff_percent a b =
     (if max a b = 0 then Inl ZeroDivisionError
      else Inr (fmul (fdiv \<bar>fsub a b\<bar> (max a b)) 100))"

definition score_pressure :: "product \<Rightarrow> product \<Rightarrow> tally \<Rightarrow> error + tally" where
  "score_pressure balflex heizmann t =
     (case t of (score, max_score, reasons) \<Rightarrow>
        let balflex_pressure = por (working_pressure_mpa balflex) (working_pressure_bar balflex);
            heizmann_pressure = por (working_pressure_mpa heizmann) (working_pressure_bar heizmann)
        in if truthy_num balflex_pressure \<and> truthy_num heizmann_pressure then
             (let balflex_pressure_mpa = pressure_in_mpa balflex (num_of balflex_pressure);
                  heizmann_pressure_mpa = pressure_in_mpa heizmann (num_of heizmann_pressure)
              in and_then (diff_percent balflex_pressure_mpa heizmann_pressure_mpa)
                   (\<lambda>pressure_diff_percent.
                      if pressure_diff_percent \<le> 5
                      then Inr (score + 25, max_score + 25,
                                reasons @ [''Pressure match: '' @ fmt1 balflex_pressure_mpa
                                   @ '' MPa '' @ approx_sign @ '' ''
                                   @ fmt1 heizmann_pressure_mpa @ '' MPa''])
                      else if pressure_diff_percent \<le> 15
                      then Inr (score + 15, max_score + 25,
                                reasons @ [''Pressure similar: '' @ fmt1 balflex_pressure_mpa
                                   @ '' MPa '' @ approx_sign @ '' ''
                                   @ fmt1 heizmann_pressure_mpa @ '' MPa''])
                      else if pressure_diff_percent \<le> 30
                      then Inr (score + 8, max_score + 25, reasons)
                      else Inr (score, max_score + 25, reasons)))
           else Inr (score, max_score + 25, reasons))"

text \<open>3. Standard (20 points)\<close>

definition en_pattern :: pattern where
  "en_pattern = (lits ''EN'' @ [Star Space], [Times 3 Digit], [])"

definition sae_pattern :: pattern where
  "sae_pattern = (lits ''SAE'' @ [Star Space, Plus Digit, Lit CHR ''R''], [Plus Digit], [])"

definition standard_code_patterns :: "pattern list" where
  "standard_code_patterns =
     [(lits ''DIN'' @ [Star Space] @ lits ''EN'' @ [Star Space, Plus Digit], [], []),
      (lits ''SAE'' @ [Star Space, Plus Digit, Lit CHR ''R'', Plus Digit], [], []),
      (lits ''EN'' @ [Star Space, Plus Digit], [], []),
      (lits ''ISO'' @ [Star Space, Plus Digit], [], [])]"

fun first_code :: "pattern list \<Rightarrow> string \<Rightarrow> string option" where
  "first_code [] std = None"
| "first_code (pat # pats) std =
     (case re_search True pat std of
        Some (g0, g1) \<Rightarrow> Some (replace '' '' [] g0)
      | None \<Rightarrow> first_code pats std)"

definition extract_standard_code :: "string \<Rightarrow> string" where
  "extract_standard_code std =
     (case first_code standard_code_patterns std of Some code \<Rightarrow> code | None \<Rightarrow> std)"

definition group1 :: "(string \<times> string) option \<Rightarrow> string" where
  "group1 m = (case m of None \<Rightarrow> [] | Some (g0, g1) \<Rightarrow> g1)"

definition standard_fallback :: "string \<Rightarrow> string \<Rightarrow> tally \<Rightarrow> tally" where
  "standard_fallback balflex_std heizmann_std t =
     (case t of (score, max_score, reasons) \<Rightarrow>
        let balflex_std_clean = extract_standard_code balflex_std;
            heizmann_std_clean = extract_standard_code heizmann_std
        in if balflex_std_clean = heizmann_std_clean
           then (score + 20, max_score, reasons @ [''Standard match: '' @ balflex_std_clean])
           else if contains balflex_std_clean heizmann_std_clean
                   \<or> contains heizmann_std_clean balflex_std_clean
           then (score + 10, max_score,
                 reasons @ [''Standard similar: '' @ balflex_std_clean @ '' / ''
                            @ heizmann_std_clean])
           else (score, max_score, reasons))"

definition score_standard :: "product \<Rightarrow> product \<Rightarrow> tally \<Rightarrow> tally" where
  "score_standard balflex heizmann t =
     (case t of (score, max_score0, reasons) \<Rightarrow>
        let max_score = max_score0 + 20;
            balflex_std = upper (get_str (standard balflex));
            heizmann_std = upper (get_str (standard heizmann))
        in if balflex_std \<noteq> [] \<and> heizmann_std \<noteq> [] then
             (let balflex_en_num = re_search False en_pattern balflex_std;
                  heizmann_en_num = re_search False en_pattern heizmann_std;
                  balflex_sae = re_search False sae_pattern balflex_std;
                  heizmann_sae = re_search False sae_pattern heizmann_std
              in if balflex_en_num \<noteq> None \<and> heizmann_en_num \<noteq> None then
                   (let balflex_num = group1 balflex_en_num;
                        heizmann_num = group1 heizmann_en_num
                    in if balflex_num = heizmann_num
                       then (score + 20, max_score,
                             reasons @ [''Standard match: EN '' @ balflex_num])
                       else if balflex_num \<in> set [''853'', ''857'']
                               \<and> heizmann_num \<in> set [''853'', ''857'']
                       then (score + 10, max_score,
                             reasons @ [''Standard compatible: EN '' @ balflex_num
                                        @ '' / EN '' @ heizmann_num])
                       else standard_fallback balflex_std heizmann_std (score, max_score, reasons))
                 else if balflex_sae \<noteq> None \<and> heizmann_sae \<noteq> None then
                   (let balflex_sae_num = group1 balflex_sae;
                        heizmann_sae_num = group1 heizmann_sae
                    in if balflex_sae_num = heizmann_sae_num
                       then (score + 20, max_score,
                             reasons @ [''Standard match: SAE 100R'' @ balflex_sae_num])
                       else standard_fallback balflex_std heizmann_std (score, max_score, reasons))
                 else standard_fallback balflex_std heizmann_std (score, max_score, reasons))
           else (score, max_score, reasons))"

text \<open>4. Construction type (15 points)\<close>

definition score_construction :: "product \<Rightarrow> product \<Rightarrow> tally \<Rightarrow> tally" where
  "score_construction balflex heizmann t =
     (case t of (score, max_score0, reasons) \<Rightarrow>
        let max_score = max_score0 + 15;
            balflex_const = lower (get_str (construction balflex));
            heizmann_const = lower (get_str (construction heizmann))
        in if balflex_const \<noteq> [] \<and> heizmann_const \<noteq> [] then
             (if balflex_const = heizmann_const
              then (score + 15, max_score, reasons @ [''Construction match: '' @ balflex_const])
              else if (contains ''1 wire'' balflex_const \<and> contains ''1 wire'' heizmann_const)
                      \<or> (contains ''2 wire'' balflex_const \<and> contains ''2 wire'' heizmann_const)
                      \<or> (contains ''spiral'' balflex_const \<and> contains ''spiral'' heizmann_const)
              then (score + 12, max_score, reasons @ [''Construction similar''])
              else (score, max_score, reasons))
           else (score, max_score, reasons))"

text \<open>5. Inner diameter (10 points)\<close>

definition score_inner_diameter :: "product \<Rightarrow> product \<Rightarrow> tally \<Rightarrow> error + tally" where
  "score_inner_diameter balflex heizmann t =
     (case t of (score, max_score, reasons) \<Rightarrow>
        if truthy_num (inner_diameter_mm balflex) \<and> truthy_num (inner_diameter_mm heizmann) then
          and_then (diff_percent (num_of (inner_diameter_mm balflex))
                                 (num_of (inner_diameter_mm heizmann)))
            (\<lambda>dia_diff_percent.
               if dia_diff_percent \<le> 5
               then Inr (score + 10, max_score + 10, reasons @ [''Inner diameter match''])
               else if dia_diff_percent \<le> 15
               then Inr (score + 5, max_score + 10, reasons)
               else Inr (score, max_score + 10, reasons))
        else Inr (score, max_score + 10, reasons))"

text \<open>Normalize score to 0-100\<close>

definition normalized_score :: "int \<Rightarrow> int \<Rightarrow> rat" where
  "normalized_score score max_score =
     (if 0 < max_score then fmul (fdiv (of_int score) (of_int max_score)) 100 else 0)"

text \<open>The running values when the normalization is reached\<close>

definition tally_hose :: "(string \<Rightarrow> error + int) \<Rightarrow> product \<Rightarrow> product \<Rightarrow> error + tally" where
  "tally_hose int_of balflex heizmann =
     and_then (score_dn int_of balflex heizmann (0, 0, [])) (\<lambda>t1.
     and_then (score_pressure balflex heizmann t1) (\<lambda>t2.
       score_inner_diameter balflex heizmann
         (score_construction balflex heizmann (score_standard balflex heizmann t2))))"

definition calculate_match_score_hose ::
  "(string \<Rightarrow> error + int) \<Rightarrow> product \<Rightarrow> product \<Rightarrow> error + (rat \<times> string list)" where
  "calculate_match_score_hose int_of balflex heizmann =
     (case construction_gate balflex heizmann of
        Some message \<Rightarrow> Inr (0, [message])
      | None \<Rightarrow>
          and_then (tally_hose int_of balflex heizmann) (\<lambda>t.
            case t of (score, max_score, reasons) \<Rightarrow>
              Inr (normalized_score score max_score, reasons)))"

definition score_to_quality :: "rat \<Rightarrow> string" where
  "score_to_quality score =
     (if 80 \<le> score then ''Excellent Match''
      else if 60 \<le> score then ''Good Match''
      else if 40 \<le> score then ''Fair Match''
      else ''Possible Match'')"

text \<open>
  A match entry. The identifiers and specifications that \<open>_create_match_entry\<close> copies
  are read from the two products, which the entry holds here.
\<close>

record hose_match =
  match_score :: rat
  match_quality :: string
  match_reasons :: string
  balflex_product :: product
  heizmann_product :: product

definition create_match_entry :: "product \<Rightarrow> product \<Rightarrow> rat \<Rightarrow> string list \<Rightarrow> hose_match" where
  "create_match_entry balflex heizmann score reasons =
     \<lparr>match_score = round1 score, match_quality = score_to_quality score,
      match_reasons = join '', '' reasons,
      balflex_product = balflex, heizmann_product = heizmann\<rparr>"

text \<open>
  The inner loop of \<open>match_products\<close> over the distributor's products: \<open>best_match\<close>,
  \<open>best_score\<close> and \<open>best_reasons\<close>.
\<close>

type_synonym best = "product option \<times> rat \<times> string list"

fun best_hose :: "(string \<Rightarrow> error + int) \<Rightarrow> product \<Rightarrow> product list \<Rightarrow> best \<Rightarrow> error + best" where
  "best_hose int_of balflex [] b = Inr b"
| "best_hose int_of balflex (heizmann # rest) b =
     (case calculate_match_score_hose int_of balflex heizmann of
        Inl e \<Rightarrow> Inl e
      | Inr (score, reasons) \<Rightarrow>
          (case b of (best_match, best_score, best_reasons) \<Rightarrow>
             if best_score < score
             then best_hose int_of balflex rest (Some heizmann, score, reasons)
             else best_hose int_of balflex rest b))"

text \<open>The match appended for one manufacturer product, if any\<close>

definition match_one_hose ::
  "(string \<Rightarrow> error + int) \<Rightarrow> product \<Rightarrow> product list \<Rightarrow> error + hose_match option" where
  "match_one_hose int_of balflex heizmann_products =
     and_then (best_hose int_of balflex heizmann_products (None, 0, [])) (\<lambda>b.
       case b of (best_match, best_score, best_reasons) \<Rightarrow>
         (case best_match of
            None \<Rightarrow> Inr None
          | Some heizmann \<Rightarrow>
              if dict_nonempty heizmann \<and> 30 \<le> best_score
              then Inr (Some (create_match_entry balflex heizmann best_score best_reasons))
              else Inr None))"

fun match_products_hose ::
  "(string \<Rightarrow> error + int) \<Rightarrow> product list \<Rightarrow> product list \<Rightarrow> error + hose_match list" where
  "match_products_hose int_of [] heizmann_products = Inr []"
| "match_products_hose int_of (balflex # rest) heizmann_products =
     and_then (match_one_hose int_of balflex heizmann_products) (\<lambda>m.
     and_then (match_products_hose int_of rest heizmann_products) (\<lambda>ms.
       Inr (case m of None \<Rightarrow> ms | Some e \<Rightarrow> e # ms)))"

text \<open>
  An instance of the builtin \<open>int\<close>: an optional sign and decimal digits, surrounded by
  whitespace.
\<close>

definition dec_int :: "string \<Rightarrow> error + int" where
  "dec_int s =
     (let t = strip s;
          neg = starts_with ''-'' t;
          body = (if starts_with ''-'' t \<or> starts_with ''+'' t then tl t else t)
      in if isdigit body then Inr (if neg then - digits_value body else digits_value body)
         else Inl ValueError)"

section \<open>Scenario records\<close>

text \<open>The two records of the end-to-end hose scenario\<close>

definition scenario_source :: product where
  "scenario_source =
     empty_product\<lparr>dn := Some ''DN12'', working_pressure_mpa := Some 25,
       standard := Some ''DIN EN 857 2SC'', construction := Some ''2 wire braid''\<rparr>"

definition scenario_target :: product where
  "scenario_target =
     empty_product\<lparr>dn := Some ''DN12'', working_pressure_bar := Some 250,
       standard := Some ''DIN EN 857 2SC'', construction := Some ''2 wire braid''\<rparr>"

section \<open>Fittings matcher with series validation: \<open>match_pressarmaturen_WITH_SERIES\<close>\<close>

text \<open>Signs of the reason and warning texts, in UTF-8\<close>

definition degree_sign :: string where
  "degree_sign = [char_of (194 :: nat), char_of (176 :: nat)]"

definition neq_sign :: string where
  "neq_sign = [char_of (226 :: nat), char_of (137 :: nat), char_of (160 :: nat)]"

definition warning_sign :: string where
  "warning_sign = [char_of (226 :: nat), char_of (154 :: nat), char_of (160 :: nat),
                   char_of (239 :: nat), char_of (184 :: nat), char_of (143 :: nat)]"

text \<open>An optional text inside a formatted text: \<open>None\<close> prints as "None"\<close>

definition fmt_opt :: "string option \<Rightarrow> string" where
  "fmt_opt v = (case v of None \<Rightarrow> ''None'' | Some s \<Rightarrow> s)"

definition normalize_standard :: "string option \<Rightarrow> string option" where
  "normalize_standard std =
     (if \<not> truthy std then None
      else let std_upper = upper (get_str std)
           in find (\<lambda>base. contains base std_upper)
                [''ISO'', ''JIS'', ''BSP'', ''NPT'', ''JIC'', ''ORFS'', ''SAE'', ''DIN''])"

definition seat_degree_pattern :: pattern where
  "seat_degree_pattern = ([], [Plus Digit], lits degree_sign)"

definition normalize_seat_type :: "string option \<Rightarrow> string option" where
  "normalize_seat_type seat =
     (if \<not> truthy seat then None
      else case re_search False seat_degree_pattern (get_str seat) of
             Some (g0, g1) \<Rightarrow> Some (g1 @ degree_sign @ '' Cone'')
           | None \<Rightarrow>
               if contains ''flat'' (lower (get_str seat)) then Some ''Flat Face''
               else if contains ''o-ring'' (lower (get_str seat))
                       \<or> contains ''oring'' (lower (get_str seat)) then Some ''O-Ring''
               else None)"

definition determine_gender_heizmann :: "product \<Rightarrow> string" where
  "determine_gender_heizmann heizmann_item =
     (let connection = get_str (connection_type heizmann_item);
          ident = get_str (identification heizmann_item);
          model_name = get_str (model heizmann_item);
          combined = lower (model_name @ '' '' @ ident);
          female_keywords = [''muffe'', ''mutter'', ''female'', ''socket'', ''coupler''];
          male_keywords = [''nippel'', ''stecker'', ''male'', ''plug'', ''stem'']
      in if connection \<noteq> []
            \<and> (contains ''innengewinde'' (lower connection)
                 \<or> contains ''innenkegel'' (lower connection)) then ''Female''
         else if connection \<noteq> []
            \<and> (contains ''aussengewinde'' (lower connection)
                 \<or> contains ''aussenkegel'' (lower connection)) then ''Male''
         else if list_ex (\<lambda>keyword. contains keyword combined) female_keywords then ''Female''
         else if list_ex (\<lambda>keyword. contains keyword combined) male_keywords then ''Male''
         else ''Unknown'')"

text \<open>
  The running values of \<open>calculate_match_score\<close>: \<open>score\<close>, \<open>reasons\<close> and
  \<open>warnings\<close>. A mandatory criterion yields either the warning of its rejection (on the
  left) or the updated values. The builtin \<open>float\<close> on a text is the parameter
  \<open>float_of\<close>.
\<close>

type_synonym ftally = "int \<times> string list \<times> string list"

text \<open>Criterion 1: angle (mandatory, 20 points)\<close>

definition criterion_angle :: "product \<Rightarrow> product \<Rightarrow> ftally \<Rightarrow> string + ftally" where
  "criterion_angle heizmann_item balflex_item t =
     (case t of (score, reasons, warnings) \<Rightarrow>
        let heizmann_angle = angle heizmann_item; balflex_angle = angle balflex_item
        in if truthy heizmann_angle \<and> truthy balflex_angle then
             (if heizmann_angle = balflex_angle
              then Inr (score + 20, reasons @ [''Angle: '' @ get_str heizmann_angle], warnings)
              else Inl (''ANGLE MISMATCH: '' @ get_str heizmann_angle @ '' '' @ neq_sign
                        @ '' '' @ get_str balflex_angle))
           else if truthy heizmann_angle \<or> truthy balflex_angle then
             Inr (score, reasons,
                  warnings @ [''Angle missing in one product (H:'' @ fmt_opt heizmann_angle
                              @ '', B:'' @ fmt_opt balflex_angle @ '')''])
           else Inr (score, reasons, warnings))"

text \<open>Criterion 2: series L/S (mandatory, 20 points)\<close>

definition criterion_series :: "product \<Rightarrow> product \<Rightarrow> ftally \<Rightarrow> string + ftally" where
  "criterion_series heizmann_item balflex_item t =
     (case t of (score, reasons, warnings) \<Rightarrow>
        let heizmann_series = series heizmann_item; balflex_series = series balflex_item
        in if truthy heizmann_series \<and> truthy balflex_series then
             (if heizmann_series = balflex_series
              then Inr (score + 20, reasons @ [''Series: '' @ get_str heizmann_series], warnings)
              else Inl (''SERIES MISMATCH: '' @ get_str heizmann_series @ '' (pressure) ''
                        @ neq_sign @ '' '' @ get_str balflex_series @ '' (pressure)''))
           else if truthy heizmann_series \<or> truthy balflex_series then
             Inr (score, reasons,
                  warnings @ [''Series (L/S) missing in one product (H:''
                              @ fmt_opt heizmann_series @ '', B:''
                              @ fmt_opt balflex_series @ '')''])
           else Inr (score, reasons, warnings))"

text \<open>Criterion 3: standard (mandatory, 30 points)\<close>

definition criterion_standard :: "product \<Rightarrow> product \<Rightarrow> ftally \<Rightarrow> string + ftally" where
  "criterion_standard heizmann_item balflex_item t =
     (case t of (score, reasons, warnings) \<Rightarrow>
        let heizmann_std = normalize_standard (standard heizmann_item);
            balflex_std = normalize_standard (standard balflex_item)
        in if truthy heizmann_std \<and> truthy balflex_std then
             (if heizmann_std = balflex_std
              then Inr (score + 30, reasons @ [''Standard: '' @ get_str heizmann_std], warnings)
              else Inl (''STANDARD MISMATCH: '' @ get_str heizmann_std @ '' '' @ neq_sign
                        @ '' '' @ get_str balflex_std))
           else if truthy heizmann_std \<or> truthy balflex_std then
             Inr (score, reasons, warnings @ [''Standard missing in one product''])
           else Inr (score, reasons, warnings))"

text \<open>Criterion 4: DN (25 points). Both conversions are inside the \<open>try\<close>.\<close>

definition criterion_dn :: "(string \<Rightarrow> error + rat) \<Rightarrow> product \<Rightarrow> product \<Rightarrow> ftally \<Rightarrow> ftally" where
  "criterion_dn float_of heizmann_item balflex_item t =
     (case t of (score, reasons, warnings) \<Rightarrow>
        let heizmann_dn = dn heizmann_item; balflex_dn = hose_size_mm balflex_item
        in if truthy heizmann_dn \<and> truthy balflex_dn then
             (case and_then (float_of (get_str heizmann_dn)) (\<lambda>heizmann_dn_val.
                   and_then (float_of (get_str balflex_dn)) (\<lambda>balflex_dn_val.
                     Inr (heizmann_dn_val, balflex_dn_val))) of
                Inl e \<Rightarrow> (score, reasons, warnings @ [''DN values not comparable''])
              | Inr (heizmann_dn_val, balflex_dn_val) \<Rightarrow>
                  if \<bar>fsub heizmann_dn_val balflex_dn_val\<bar> \<le> 1 / 2
                  then (score + 25, reasons @ [''DN: '' @ fmt1 heizmann_dn_val @ ''mm''], warnings)
                  else if \<bar>fsub heizmann_dn_val balflex_dn_val\<bar> \<le> 2
                  then (score + 12,
                        reasons @ [''DN close: '' @ fmt1 heizmann_dn_val @ approx_sign
                                   @ fmt1 balflex_dn_val @ ''mm''], warnings)
                  else (score, reasons,
                        warnings @ [''DN mismatch: '' @ fmt1 heizmann_dn_val @ '' vs ''
                                    @ fmt1 balflex_dn_val @ ''mm'']))
           else if truthy heizmann_dn \<or> truthy balflex_dn then
             (score, reasons, warnings @ [''DN missing in one product''])
           else (score, reasons, warnings))"

text \<open>Criterion 5: seat type (5 points)\<close>

definition criterion_seat :: "product \<Rightarrow> product \<Rightarrow> ftally \<Rightarrow> ftally" where
  "criterion_seat heizmann_item balflex_item t =
     (case t of (score, reasons, warnings) \<Rightarrow>
        let heizmann_seat = normalize_seat_type (seat_type heizmann_item);
            balflex_seat = normalize_seat_type (seat_type balflex_item)
        in if truthy heizmann_seat \<and> truthy balflex_seat then
             (if heizmann_seat = balflex_seat
              then (score + 5, reasons @ [''Seat: '' @ get_str heizmann_seat], warnings)
              else (score, reasons,
                    warnings @ [''Seat mismatch: '' @ get_str heizmann_seat @ '' '' @ neq_sign
                                @ '' '' @ get_str balflex_seat]))
           else if truthy heizmann_seat \<or> truthy balflex_seat then
             (score, reasons, warnings @ [''Seat type missing in one product''])
           else (score, reasons, warnings))"

text \<open>Bonus: gender match (validation only)\<close>

definition criterion_gender :: "product \<Rightarrow> product \<Rightarrow> ftally \<Rightarrow> ftally" where
  "criterion_gender heizmann_item balflex_item t =
     (case t of (score, reasons, warnings) \<Rightarrow>
        let heizmann_gender = determine_gender_heizmann heizmann_item;
            balflex_gender = gender balflex_item
        in if heizmann_gender \<noteq> [] \<and> truthy balflex_gender
              \<and> heizmann_gender \<noteq> ''Unknown'' \<and> get_str balflex_gender \<noteq> ''Unknown'' then
             (if heizmann_gender = get_str balflex_gender
              then (score, reasons @ [''Gender: '' @ heizmann_gender], warnings)
              else (score, reasons,
                    warnings @ [warning_sign @ '' Gender mismatch: '' @ heizmann_gender @ '' ''
                                @ neq_sign @ '' '' @ get_str balflex_gender]))
           else (score, reasons, warnings))"

text \<open>Add warnings to reasons if any\<close>

definition add_warnings :: "ftally \<Rightarrow> ftally" where
  "add_warnings t =
     (case t of (score, reasons, warnings) \<Rightarrow>
        if warnings \<noteq> []
        then (score, reasons @ [''[Warnings: '' @ join ''; '' warnings @ '']''], warnings)
        else (score, reasons, warnings))"

definition calculate_match_score :: "(string \<Rightarrow> error + rat) \<Rightarrow> product \<Rightarrow> product \<Rightarrow> ftally" where
  "calculate_match_score float_of heizmann_item balflex_item =
     (case criterion_angle heizmann_item balflex_item (0, [], []) of
        Inl w \<Rightarrow> (0, [], [w])
      | Inr t1 \<Rightarrow>
     (case criterion_series heizmann_item balflex_item t1 of
        Inl w \<Rightarrow> (0, [], [w])
      | Inr t2 \<Rightarrow>
     (case criterion_standard heizmann_item balflex_item t2 of
        Inl w \<Rightarrow> (0, [], [w])
      | Inr t3 \<Rightarrow>
          add_warnings
            (criterion_gender heizmann_item balflex_item
              (criterion_seat heizmann_item balflex_item
                (criterion_dn float_of heizmann_item balflex_item t3))))))"

text \<open>The rejection statistics of \<open>match_products\<close>\<close>

record rejected_counts =
  angle_mismatch :: nat
  series_mismatch :: nat
  standard_mismatch :: nat
  low_score :: nat

definition track_rejection :: "ftally \<Rightarrow> rejected_counts \<Rightarrow> rejected_counts" where
  "track_rejection r counts =
     (case r of (score, reasons, warnings) \<Rightarrow>
        if score = 0 \<and> warnings \<noteq> [] then
          (if contains ''ANGLE MISMATCH'' (hd warnings)
           then counts\<lparr>angle_mismatch := angle_mismatch counts + 1\<rparr>
           else if contains ''SERIES MISMATCH'' (hd warnings)
           then counts\<lparr>series_mismatch := series_mismatch counts + 1\<rparr>
           else if contains ''STANDARD MISMATCH'' (hd warnings)
           then counts\<lparr>standard_mismatch := standard_mismatch counts + 1\<rparr>
           else counts)
        else counts)"

text \<open>
  The inner loop over the manufacturer's fittings: \<open>best_match\<close>, \<open>best_score\<close>,
  \<open>best_reasons\<close> and the statistics.
\<close>

type_synonym fbest = "product option \<times> int \<times> string list"

fun best_fitting ::
  "(string \<Rightarrow> error + rat) \<Rightarrow> int \<Rightarrow> product \<Rightarrow> product list \<Rightarrow> fbest \<times> rejected_counts
   \<Rightarrow> fbest \<times> rejected_counts" where
  "best_fitting float_of min_threshold heizmann_item [] acc = acc"
| "best_fitting float_of min_threshold heizmann_item (balflex_item # rest) acc =
     (case acc of ((best_match, best_score, best_reasons), counts) \<Rightarrow>
        (case calculate_match_score float_of heizmann_item balflex_item of
           (score, reasons, warnings) \<Rightarrow>
             let counts' = track_rejection (score, reasons, warnings) counts
             in if best_score < score \<and> min_threshold \<le> score
                then best_fitting float_of min_threshold heizmann_item rest
                       ((Some balflex_item, score, reasons), counts')
                else best_fitting float_of min_threshold heizmann_item rest
                       ((best_match, best_score, best_reasons), counts')))"

definition quality_of :: "int \<Rightarrow> string" where
  "quality_of best_score =
     (if 90 \<le> best_score then ''Excellent''
      else if 75 \<le> best_score then ''Very Good''
      else if 60 \<le> best_score then ''Good''
      else ''Fair'')"

text \<open>
  A match row. The columns copied with \<open>get\<close> are read from the two items, which the row
  holds here; the columns copied by subscript raise \<open>KeyError\<close> when the key is absent.
\<close>

record fitting_match =
  heizmann_item_of :: product
  balflex_item_of :: product
  Match_Score :: int
  Match_Quality :: string
  Match_Reasons :: string

definition subscript_keys_present :: "product \<Rightarrow> product \<Rightarrow> bool" where
  "subscript_keys_present heizmann_item best_match =
     (model heizmann_item \<noteq> None \<and> article_number heizmann_item \<noteq> None
      \<and> reference heizmann_item \<noteq> None \<and> url heizmann_item \<noteq> None
      \<and> reference best_match \<noteq> None \<and> article_number best_match \<noteq> None)"

text \<open>One pass of the outer loop: the row appended for a distributor item, if any\<close>

definition match_one_fitting ::
  "(string \<Rightarrow> error + rat) \<Rightarrow> int \<Rightarrow> product \<Rightarrow> product list \<Rightarrow> rejected_counts
   \<Rightarrow> error + (fitting_match option \<times> rejected_counts)" where
  "match_one_fitting float_of min_threshold heizmann_item balflex_data counts =
     (case best_fitting float_of min_threshold heizmann_item balflex_data
             ((None, 0, []), counts) of
        ((best_match, best_score, best_reasons), counts') \<Rightarrow>
          (case best_match of
             Some balflex_item \<Rightarrow>
               if dict_nonempty balflex_item then
                 (if subscript_keys_present heizmann_item balflex_item
                  then Inr (Some \<lparr>heizmann_item_of = heizmann_item,
                                   balflex_item_of = balflex_item,
                                   Match_Score = best_score,
                                   Match_Quality = quality_of best_score,
                                   Match_Reasons = join '', '' best_reasons\<rparr>, counts')
                  else Inl KeyError)
               else Inr (None, counts'\<lparr>low_score := low_score counts' + 1\<rparr>)
           | None \<Rightarrow> Inr (None, counts'\<lparr>low_score := low_score counts' + 1\<rparr>)))"

fun match_loop ::
  "(string \<Rightarrow> error + rat) \<Rightarrow> int \<Rightarrow> product list \<Rightarrow> product list
   \<Rightarrow> fitting_match list \<times> rejected_counts \<Rightarrow> error + (fitting_match list \<times> rejected_counts)" where
  "match_loop float_of min_threshold [] balflex_data acc = Inr acc"
| "match_loop float_of min_threshold (heizmann_item # rest) balflex_data acc =
     (case acc of (matches, counts) \<Rightarrow>
        and_then (match_one_fitting float_of min_threshold heizmann_item balflex_data counts)
          (\<lambda>r. case r of (m, counts') \<Rightarrow>
             match_loop float_of min_threshold rest balflex_data
               ((case m of None \<Rightarrow> matches | Some row \<Rightarrow> matches @ [row]), counts')))"

definition match_products ::
  "(string \<Rightarrow> error + rat) \<Rightarrow> product list \<Rightarrow> product list \<Rightarrow> int
   \<Rightarrow> error + (fitting_match list \<times> rejected_counts)" where
  "match_products float_of heizmann_data balflex_data min_threshold =
     match_loop float_of min_threshold heizmann_data balflex_data
       ([], \<lparr>angle_mismatch = 0, series_mismatch = 0, standard_mismatch = 0, low_score = 0\<rparr>)"

text \<open>A record restated with its working pressure in one unit only\<close>

definition stated_in_bar :: "rat \<Rightarrow> product \<Rightarrow> product" where
  "stated_in_bar v p = p\<lparr>working_pressure_mpa := None, working_pressure_bar := Some v\<rparr>"

definition stated_in_mpa :: "rat \<Rightarrow> product \<Rightarrow> product" where
  "stated_in_mpa v p = p\<lparr>working_pressure_mpa := Some v, working_pressure_bar := None\<rparr>"

text \<open>The two records of the end-to-end rejection scenario\<close>

definition rejection_source :: product where
  "rejection_source = empty_product\<lparr>dn := Some ''DN10'', construction := Some ''textile braid''\<rparr>"

definition rejection_target :: product where
  "rejection_target = empty_product\<lparr>dn := Some ''DN10'', construction := Some ''2 wire braid''\<rparr>"

text \<open>Two fittings whose angles are both known and differ\<close>

definition elbow_fitting :: product where
  "elbow_fitting = empty_product\<lparr>angle := Some ''90'', dn := Some ''10''\<rparr>"

definition straight_fitting :: product where
  "straight_fitting = empty_product\<lparr>angle := Some ''straight'', hose_size_mm := Some ''10''\<rparr>"

text \<open>Two hose records that differ in the family code of their standard\<close>

definition wire_braid_853 :: product where
  "wire_braid_853 = empty_product\<lparr>standard := Some ''DIN EN 853 1SN''\<rparr>"

definition compact_857 :: product where
  "compact_857 = empty_product\<lparr>standard := Some ''DIN EN 857 2SC''\<rparr>"

section \<open>Fittings matcher on thread and size: \<open>ImprovedFittingsMatcher\<close>\<close>

text \<open>
  The builtins \<open>float\<close> and \<open>int\<close> on a text are the parameters \<open>float_of\<close> and
  \<open>int_of\<close>. The score is the sum of the points of the four sections of
  \<open>_calculate_score\<close>.
\<close>

text \<open>Thread type (40 points)\<close>

definition thread_score :: "product \<Rightarrow> product \<Rightarrow> int" where
  "thread_score bal heiz =
     (let bal_thread = upper (get_str (thread_type bal));
          heiz_thread = upper (get_str (thread_type heiz))
      in if bal_thread \<noteq> [] \<and> heiz_thread \<noteq> [] then
           (if bal_thread = heiz_thread then 40
            else if contains ''BSP'' bal_thread \<and> contains ''BSP'' heiz_thread then 40
            else if contains ''ORFS'' bal_thread \<and> contains ''ORFS'' heiz_thread then 40
            else if contains ''JIC'' bal_thread \<and> contains ''JIC'' heiz_thread then 40
            else if contains ''METRIC'' bal_thread \<and> contains ''METRIC'' heiz_thread then 40
            else if contains ''NPT'' bal_thread \<and> contains ''NPT'' heiz_thread then 40
            else 0)
         else 0)"

definition size_compatible :: "(string \<Rightarrow> error + int) \<Rightarrow> string \<Rightarrow> string \<Rightarrow> bool" where
  "size_compatible int_of dash sz =
     (case int_of dash of
        Inl e \<Rightarrow> False
      | Inr dash_num \<Rightarrow> contains (str_int dash_num) sz)"

text \<open>Dash size match (30 points)\<close>

definition dash_score :: "(string \<Rightarrow> error + int) \<Rightarrow> product \<Rightarrow> product \<Rightarrow> int" where
  "dash_score int_of bal heiz =
     (let bal_dash = replace ''-'' [] (get_str (dash_size bal));
          heiz_size = get_str (size_f heiz)
      in if bal_dash \<noteq> [] \<and> heiz_size \<noteq> [] then
           (if contains bal_dash heiz_size then 30
            else if size_compatible int_of bal_dash heiz_size then 20
            else 0)
         else 0)"

text \<open>Category similarity (15 points)\<close>

definition category_score :: "product \<Rightarrow> product \<Rightarrow> int" where
  "category_score bal heiz =
     (let bal_cat = upper (get_str (category bal));
          heiz_cat = upper (get_str (category heiz))
      in if bal_cat = heiz_cat then 15
         else if list_ex (\<lambda>word. contains word heiz_cat)
                   (filter (\<lambda>word. contains word bal_cat) [''PRESS'', ''ADAPTER'', ''FLANGE''])
         then 10
         else 0)"

text \<open>Hose size (15 points); the conversions are inside the \<open>try\<close>\<close>

definition digits_pattern :: pattern where
  "digits_pattern = ([], [Plus Digit], [])"

definition hose_size_score :: "(string \<Rightarrow> error + rat) \<Rightarrow> product \<Rightarrow> product \<Rightarrow> int" where
  "hose_size_score float_of bal heiz =
     (let bal_hose = get_str (hose_size_mm bal);
          heiz_dn = get_str (DN heiz)
      in if bal_hose \<noteq> [] \<and> heiz_dn \<noteq> [] then
           (case float_of bal_hose of
              Inl e \<Rightarrow> 0
            | Inr bal_mm \<Rightarrow>
                (case re_search False digits_pattern heiz_dn of
                   None \<Rightarrow> 0
                 | Some (g0, g1) \<Rightarrow>
                     (case float_of g0 of
                        Inl e \<Rightarrow> 0
                      | Inr heiz_mm \<Rightarrow>
                          if \<bar>fsub bal_mm heiz_mm\<bar> \<le> 3 then 15
                          else if \<bar>fsub bal_mm heiz_mm\<bar> \<le> 6 then 10
                          else 0)))
         else 0)"

definition calculate_score ::
  "(string \<Rightarrow> error + rat) \<Rightarrow> (string \<Rightarrow> error + int) \<Rightarrow> product \<Rightarrow> product \<Rightarrow> int" where
  "calculate_score float_of int_of bal heiz =
     thread_score bal heiz + dash_score int_of bal heiz + category_score bal heiz
     + hose_size_score float_of bal heiz"

definition threads_compatible :: "product \<Rightarrow> product \<Rightarrow> bool" where
  "threads_compatible bal heiz =
     (let bal_thread = upper (get_str (thread_type bal));
          heiz_thread = upper (get_str (thread_type heiz))
      in if bal_thread = [] \<or> heiz_thread = [] then False
         else if bal_thread = heiz_thread then True
         else if contains ''BSP'' bal_thread \<and> contains ''BSP'' heiz_thread then True
         else if contains ''ORFS'' bal_thread
                 \<and> (contains ''ORFS'' heiz_thread \<or> contains ''UNF'' heiz_thread) then True
         else if contains ''JIC'' bal_thread \<and> contains ''JIC'' heiz_thread then True
         else if contains ''METRIC'' bal_thread \<and> contains ''METRIC'' heiz_thread then True
         else if contains ''SCHNEIDRING'' bal_thread \<and> contains ''SCHNEIDRING'' heiz_thread
         then True
         else if contains ''NPT'' bal_thread \<and> contains ''NPT'' heiz_thread then True
         else False)"

definition arrow_sign :: string where
  "arrow_sign = [char_of (226 :: nat), char_of (134 :: nat), char_of (148 :: nat)]"

definition get_or :: "string \<Rightarrow> string option \<Rightarrow> string" where
  "get_or d v = (case v of None \<Rightarrow> d | Some s \<Rightarrow> s)"

definition get_match_reason :: "product \<Rightarrow> product \<Rightarrow> string" where
  "get_match_reason bal heiz =
     ''Thread: '' @ get_or ''N/A'' (thread_type bal) @ '' '' @ arrow_sign @ '' ''
       @ get_or ''N/A'' (thread_type heiz) @ '' | Size: '' @ get_or ''N/A'' (dash_size bal)
       @ '' '' @ arrow_sign @ '' '' @ get_or ''N/A'' (size_f heiz)"

text \<open>The categories of the distributor that are not fittings\<close>

definition excluded :: "string list" where
  "excluded =
     [''Staub- & Gewindeschutz'', ''Hydraulik-Dichtungen'', ''Sortimente'', ''Rohrtechnik'',
      ''Messtechnik'',
      ''Leitungszubeh'' @ [char_of (195 :: nat), char_of (182 :: nat)] @ ''r'']"

definition valid_heizmann :: "product list \<Rightarrow> product list" where
  "valid_heizmann heizmann_fittings =
     filter (\<lambda>f. case category f of None \<Rightarrow> True | Some c \<Rightarrow> c \<notin> set excluded)
       heizmann_fittings"

text \<open>The inner loop of \<open>match\<close>: \<open>best_match\<close> and \<open>best_score\<close>\<close>

fun best_thread_fitting ::
  "(string \<Rightarrow> error + rat) \<Rightarrow> (string \<Rightarrow> error + int) \<Rightarrow> product \<Rightarrow> product list
   \<Rightarrow> product option \<times> int \<Rightarrow> product option \<times> int" where
  "best_thread_fitting float_of int_of bal [] acc = acc"
| "best_thread_fitting float_of int_of bal (heiz # rest) acc =
     (case acc of (best_match, best_score) \<Rightarrow>
        let score = calculate_score float_of int_of bal heiz
        in if best_score < score \<and> 55 \<le> score \<and> threads_compatible bal heiz
           then best_thread_fitting float_of int_of bal rest (Some heiz, score)
           else best_thread_fitting float_of int_of bal rest (best_match, best_score))"

text \<open>
  A match entry of the thread matcher. The columns copied with \<open>get\<close> are read from the
  two fittings, which the entry holds here.
\<close>

record thread_match =
  balflex_fitting :: product
  heizmann_fitting :: product
  entry_score :: int
  match_reason :: string

definition match_one_thread ::
  "(string \<Rightarrow> error + rat) \<Rightarrow> (string \<Rightarrow> error + int) \<Rightarrow> product \<Rightarrow> product list
   \<Rightarrow> thread_match option" where
  "match_one_thread float_of int_of bal heizmann_fittings =
     (case best_thread_fitting float_of int_of bal (valid_heizmann heizmann_fittings) (None, 0) of
        (best_match, best_score) \<Rightarrow>
          (case best_match of
             None \<Rightarrow> None
           | Some heiz \<Rightarrow>
               if dict_nonempty heiz
               then Some \<lparr>balflex_fitting = bal, heizmann_fitting = heiz,
                          entry_score = best_score,
                          match_reason = get_match_reason bal heiz\<rparr>
               else None))"

definition match_fittings ::
  "(string \<Rightarrow> error + rat) \<Rightarrow> (string \<Rightarrow> error + int) \<Rightarrow> product list \<Rightarrow> product list
   \<Rightarrow> thread_match list" where
  "match_fittings float_of int_of balflex_fittings heizmann_fittings =
     concat (map (\<lambda>bal. case match_one_thread float_of int_of bal heizmann_fittings of
                           None \<Rightarrow> [] | Some e \<Rightarrow> [e])
                 balflex_fittings)"

text \<open>
  An instance of the builtin \<open>float\<close>: an optional sign, decimal digits and an optional
  fraction, surrounded by whitespace; the value is the nearest double.
\<close>

definition decimal_value :: "string \<Rightarrow> rat option" where
  "decimal_value body =
     (let whole = takeWhile is_digit body; rest = dropWhile is_digit body
      in if rest = [] then (if whole = [] then None else Some (of_int (digits_value whole)))
         else if hd rest = CHR ''.'' \<and> list_all is_digit (tl rest)
                 \<and> (whole \<noteq> [] \<or> tl rest \<noteq> [])
         then Some (of_int (digits_value whole)
                    + of_int (digits_value (tl rest)) / 10 ^ length (tl rest))
         else None)"

definition dec_float :: "string \<Rightarrow> error + rat" where
  "dec_float s =
     (let t = strip s;
          neg = starts_with ''-'' t;
          body = (if starts_with ''-'' t \<or> starts_with ''+'' t then tl t else t)
      in case decimal_value body of
           None \<Rightarrow> Inl ValueError
         | Some v \<Rightarrow> Inr (rd (if neg then - v else v)))"

text \<open>Fittings for evaluation: the manufacturer's item has no thread type\<close>

definition bal_without_thread :: product where
  "bal_without_thread =
     empty_product\<lparr>reference := Some ''B1'', category := Some ''Press fittings'',
       dash_size := Some ''-8'', hose_size_mm := Some ''12.7''\<rparr>"

definition heiz_with_thread :: product where
  "heiz_with_thread =
     empty_product\<lparr>article_number := Some ''H1'', category := Some ''Press fittings'',
       thread_type := Some ''BSP'', size_f := Some ''8'', DN := Some ''DN12''\<rparr>"

text \<open>Two hose records with the same DN and the same pressure, and nothing else\<close>

definition rounding_source :: product where
  "rounding_source = empty_product\<lparr>dn := Some ''DN12'', working_pressure_mpa := Some 25\<rparr>"

definition rounding_target :: product where
  "rounding_target = empty_product\<lparr>dn := Some ''DN12'', working_pressure_bar := Some 250\<rparr>"

text \<open>Records for the threshold: a hose with a DN only, and fittings with identifiers\<close>

definition dn_only :: product where
  "dn_only = empty_product\<lparr>dn := Some ''DN12''\<rparr>"

definition plain_heizmann :: product where
  "plain_heizmann =
     empty_product\<lparr>model := Some ''Nippel'', reference := Some ''R1'',
       article_number := Some ''A1'', url := Some ''u1''\<rparr>"

definition plain_balflex :: product where
  "plain_balflex = empty_product\<lparr>reference := Some ''B1'', article_number := Some ''10.1''\<rparr>"

definition heizmann_70 :: product where
  "heizmann_70 = plain_heizmann\<lparr>angle := Some ''90'', series := Some ''L'',
     standard := Some ''ISO 8434-1''\<rparr>"

definition balflex_70 :: product where
  "balflex_70 = plain_balflex\<lparr>angle := Some ''90'', series := Some ''L'',
     standard := Some ''ISO 8434''\<rparr>"

section \<open>Points awarded by the hose criteria\<close>

text \<open>
  Each section of the hose scorer adds its weight to \<open>max_score\<close> and one of its point
  values to \<open>score\<close>.
\<close>

lemma score_dn_result:
  "score_dn int_of b h (s, m, r) = Inr (s', m', r') \<Longrightarrow>
   m' = m + 30 \<and> (s' = s \<or> s' = s + 15 \<or> s' = s + 30)"
  by (auto simp: score_dn_def and_then_def split: if_splits sum.splits)

lemma score_pressure_result:
  "score_pressure b h (s, m, r) = Inr (s', m', r') \<Longrightarrow>
   m' = m + 25 \<and> (s' = s \<or> s' = s + 8 \<or> s' = s + 15 \<or> s' = s + 25)"
  by (auto simp: score_pressure_def and_then_def Let_def split: if_splits sum.splits)

lemma standard_fallback_result:
  "standard_fallback x y (s, m, r) = (s', m', r') \<Longrightarrow>
   m' = m \<and> (s' = s \<or> s' = s + 10 \<or> s' = s + 20)"
  by (auto simp: standard_fallback_def Let_def split: if_splits)

lemma score_standard_result:
  "score_standard b h (s, m, r) = (s', m', r') \<Longrightarrow>
   m' = m + 20 \<and> (s' = s \<or> s' = s + 10 \<or> s' = s + 20)"
  unfolding score_standard_def Let_def
  by (auto split: if_splits dest!: standard_fallback_result)

lemma score_construction_result:
  "score_construction b h (s, m, r) = (s', m', r') \<Longrightarrow>
   m' = m + 15 \<and> (s' = s \<or> s' = s + 12 \<or> s' = s + 15)"
  unfolding score_construction_def Let_def
  by (auto split: if_splits)

lemma score_inner_diameter_result:
  "score_inner_diameter b h (s, m, r) = Inr (s', m', r') \<Longrightarrow>
   m' = m + 10 \<and> (s' = s \<or> s' = s + 5 \<or> s' = s + 10)"
  by (auto simp: score_inner_diameter_def and_then_def split: if_splits sum.splits)

text \<open>The running values that reach the normalization, split by section\<close>

lemma tally_hose_sections:
  assumes "tally_hose int_of b h = Inr (s, m, r)"
  obtains s1 m1 r1 s2 m2 r2 s3 m3 r3 s4 m4 r4 where
    "score_dn int_of b h (0, 0, []) = Inr (s1, m1, r1)"
    "score_pressure b h (s1, m1, r1) = Inr (s2, m2, r2)"
    "score_standard b h (s2, m2, r2) = (s3, m3, r3)"
    "score_construction b h (s3, m3, r3) = (s4, m4, r4)"
    "score_inner_diameter b h (s4, m4, r4) = Inr (s, m, r)"
proof -
  from assms obtain s1 m1 r1 s2 m2 r2 where
    d: "score_dn int_of b h (0, 0, []) = Inr (s1, m1, r1)" and
    p: "score_pressure b h (s1, m1, r1) = Inr (s2, m2, r2)" and
    i: "score_inner_diameter b h
          (score_construction b h (score_standard b h (s2, m2, r2))) = Inr (s, m, r)"
    by (auto simp: tally_hose_def and_then_def split: sum.splits)
  obtain s3 m3 r3 where st: "score_standard b h (s2, m2, r2) = (s3, m3, r3)"
    by (cases "score_standard b h (s2, m2, r2)") auto
  obtain s4 m4 r4 where c: "score_construction b h (s3, m3, r3) = (s4, m4, r4)"
    by (cases "score_construction b h (s3, m3, r3)") auto
  from i st c have "score_inner_diameter b h (s4, m4, r4) = Inr (s, m, r)" by simp
  with d p st c show thesis by (rule that)
qed

lemma tally_hose_result:
  assumes "tally_hose int_of b h = Inr (s, m, r)"
  shows "m = 100 \<and> 0 \<le> s \<and> s \<le> 100"
proof -
  from assms obtain s1 m1 r1 s2 m2 r2 s3 m3 r3 s4 m4 r4 where
    d: "score_dn int_of b h (0, 0, []) = Inr (s1, m1, r1)" and
    p: "score_pressure b h (s1, m1, r1) = Inr (s2, m2, r2)" and
    st: "score_standard b h (s2, m2, r2) = (s3, m3, r3)" and
    c: "score_construction b h (s3, m3, r3) = (s4, m4, r4)" and
    i: "score_inner_diameter b h (s4, m4, r4) = Inr (s, m, r)"
    by (rule tally_hose_sections)
  from score_dn_result[OF d] score_pressure_result[OF p] score_standard_result[OF st]
    score_construction_result[OF c] score_inner_diameter_result[OF i]
  show ?thesis by auto
qed

section \<open>Restating the working pressure leaves the other criteria alone\<close>

lemma sel_stated:
  "dn (stated_in_bar v p) = dn p" "dn (stated_in_mpa v p) = dn p"
  "standard (stated_in_bar v p) = standard p" "standard (stated_in_mpa v p) = standard p"
  "construction (stated_in_bar v p) = construction p"
  "construction (stated_in_mpa v p) = construction p"
  "inner_diameter_mm (stated_in_bar v p) = inner_diameter_mm p"
  "inner_diameter_mm (stated_in_mpa v p) = inner_diameter_mm p"
  by (simp_all add: stated_in_bar_def stated_in_mpa_def)

lemma gate_stated:
  "construction_gate (stated_in_bar v b) h = construction_gate b h"
  "construction_gate b (stated_in_bar v h) = construction_gate b h"
  "construction_gate (stated_in_mpa v b) h = construction_gate b h"
  "construction_gate b (stated_in_mpa v h) = construction_gate b h"
  unfolding construction_gate_def sel_stated by (rule refl)+

lemma dn_stated:
  "score_dn int_of (stated_in_bar v b) h t = score_dn int_of b h t"
  "score_dn int_of b (stated_in_bar v h) t = score_dn int_of b h t"
  "score_dn int_of (stated_in_mpa v b) h t = score_dn int_of b h t"
  "score_dn int_of b (stated_in_mpa v h) t = score_dn int_of b h t"
  unfolding score_dn_def sel_stated by (rule refl)+

lemma standard_stated:
  "score_standard (stated_in_bar v b) h t = score_standard b h t"
  "score_standard b (stated_in_bar v h) t = score_standard b h t"
  "score_standard (stated_in_mpa v b) h t = score_standard b h t"
  "score_standard b (stated_in_mpa v h) t = score_standard b h t"
  unfolding score_standard_def sel_stated by (rule refl)+

lemma construction_stated:
  "score_construction (stated_in_bar v b) h t = score_construction b h t"
  "score_construction b (stated_in_bar v h) t = score_construction b h t"
  "score_construction (stated_in_mpa v b) h t = score_construction b h t"
  "score_construction b (stated_in_mpa v h) t = score_construction b h t"
  unfolding score_construction_def sel_stated by (rule refl)+

lemma diameter_stated:
  "score_inner_diameter (stated_in_bar v b) h t = score_inner_diameter b h t"
  "score_inner_diameter b (stated_in_bar v h) t = score_inner_diameter b h t"
  "score_inner_diameter (stated_in_mpa v b) h t = score_inner_diameter b h t"
  "score_inner_diameter b (stated_in_mpa v h) t = score_inner_diameter b h t"
  unfolding score_inner_diameter_def sel_stated by (rule refl)+

lemmas other_fields_stated =
  gate_stated dn_stated standard_stated construction_stated diameter_stated

lemma bar_350: "fdiv 350 10 = 35"
  by code_simp

lemma diff_35: "diff_percent 35 35 = Inr 0"
  by code_simp

lemma fmt_35: "fmt1 35 = ''35.0''"
  by code_simp

lemma pressure_points_35:
  assumes "(working_pressure_mpa b = None \<and> working_pressure_bar b = Some 350)
           \<or> (working_pressure_mpa b = Some 35 \<and> working_pressure_bar b = None)"
      and "(working_pressure_mpa h = None \<and> working_pressure_bar h = Some 350)
           \<or> (working_pressure_mpa h = Some 35 \<and> working_pressure_bar h = None)"
  shows "score_pressure b h (s, m, r) =
         Inr (s + 25, m + 25, r @ [''Pressure match: 35.0 MPa '' @ approx_sign @ '' 35.0 MPa''])"
  using assms unfolding score_pressure_def Let_def
  by (auto simp: por_def truthy_num_def num_of_def pressure_in_mpa_def and_then_def
       bar_350 diff_35 fmt_35)

lemma pressure_stated:
  "score_pressure (stated_in_bar 350 b) (stated_in_mpa 35 h) (s, m, r) =
     Inr (s + 25, m + 25, r @ [''Pressure match: 35.0 MPa '' @ approx_sign @ '' 35.0 MPa''])"
  "score_pressure (stated_in_mpa 35 b) (stated_in_bar 350 h) (s, m, r) =
     Inr (s + 25, m + 25, r @ [''Pressure match: 35.0 MPa '' @ approx_sign @ '' 35.0 MPa''])"
  "score_pressure (stated_in_mpa 35 b) (stated_in_mpa 35 h) (s, m, r) =
     Inr (s + 25, m + 25, r @ [''Pressure match: 35.0 MPa '' @ approx_sign @ '' 35.0 MPa''])"
  by (rule pressure_points_35; simp add: stated_in_bar_def stated_in_mpa_def)+

lemma pressure_same:
  "score_pressure (stated_in_bar 350 b) (stated_in_mpa 35 h) t =
   score_pressure (stated_in_mpa 35 b) (stated_in_mpa 35 h) t"
  "score_pressure (stated_in_mpa 35 b) (stated_in_bar 350 h) t =
   score_pressure (stated_in_mpa 35 b) (stated_in_mpa 35 h) t"
  by (cases t, simp add: pressure_stated)+

lemma tally_same:
  "tally_hose int_of (stated_in_bar 350 b) (stated_in_mpa 35 h) =
   tally_hose int_of (stated_in_mpa 35 b) (stated_in_mpa 35 h)"
  "tally_hose int_of (stated_in_mpa 35 b) (stated_in_bar 350 h) =
   tally_hose int_of (stated_in_mpa 35 b) (stated_in_mpa 35 h)"
  by (simp_all add: tally_hose_def pressure_same other_fields_stated)

section \<open>Unit conversion\<close>

text \<open>
  C3: for every pair of hose records, restated so that each carries its working pressure
  in exactly one unit, a record stated as 350 bar scored against a record stated as
  35 MPa (on either side) earns the 25 pressure points that two records both stated as
  35 MPa earn, with the same reason text, and the scorer returns the same result (score
  and reasons, or the same exception) for the two pairs, the other fields being equal.
\<close>

theorem unit_conversion_round_trip:
  "score_pressure (stated_in_bar 350 b) (stated_in_mpa 35 h) (s, m, r) =
     Inr (s + 25, m + 25, r @ [''Pressure match: 35.0 MPa '' @ approx_sign @ '' 35.0 MPa''])
   \<and> score_pressure (stated_in_mpa 35 b) (stated_in_bar 350 h) (s, m, r) =
     Inr (s + 25, m + 25, r @ [''Pressure match: 35.0 MPa '' @ approx_sign @ '' 35.0 MPa''])
   \<and> score_pressure (stated_in_mpa 35 b) (stated_in_mpa 35 h) (s, m, r) =
     Inr (s + 25, m + 25, r @ [''Pressure match: 35.0 MPa '' @ approx_sign @ '' 35.0 MPa''])
   \<and> calculate_match_score_hose int_of (stated_in_bar 350 b) (stated_in_mpa 35 h) =
     calculate_match_score_hose int_of (stated_in_mpa 35 b) (stated_in_mpa 35 h)
   \<and> calculate_match_score_hose int_of (stated_in_mpa 35 b) (stated_in_bar 350 h) =
     calculate_match_score_hose int_of (stated_in_mpa 35 b) (stated_in_mpa 35 h)"
proof -
  have c: "calculate_match_score_hose int_of (stated_in_bar 350 b) (stated_in_mpa 35 h) =
     calculate_match_score_hose int_of (stated_in_mpa 35 b) (stated_in_mpa 35 h)"
    "calculate_match_score_hose int_of (stated_in_mpa 35 b) (stated_in_bar 350 h) =
     calculate_match_score_hose int_of (stated_in_mpa 35 b) (stated_in_mpa 35 h)"
    by (simp_all add: calculate_match_score_hose_def tally_same other_fields_stated
          split: option.splits)
  show ?thesis
    by (intro conjI) (rule pressure_stated c)+
qed

section \<open>Standard family precision\<close>

lemma en_853: "re_search False en_pattern (upper ''DIN EN 853 1SN'') = Some (''EN 853'', ''853'')"
  by code_simp

lemma en_857: "re_search False en_pattern (upper ''DIN EN 857 2SC'') = Some (''EN 857'', ''857'')"
  by code_simp

lemma upper_853: "upper ''DIN EN 853 1SN'' \<noteq> []"
  by code_simp

lemma upper_857: "upper ''DIN EN 857 2SC'' \<noteq> []"
  by code_simp

lemma standard_853_857:
  assumes "standard b = Some ''DIN EN 853 1SN''" "standard h = Some ''DIN EN 857 2SC''"
  shows "score_standard b h (s, m, r) =
         (s + 10, m + 20, r @ [''Standard compatible: EN 853 / EN 857''])"
  unfolding score_standard_def Let_def
  by (simp add: assms get_str_def en_853 en_857 upper_853 upper_857 group1_def)

lemma standard_857_853:
  assumes "standard b = Some ''DIN EN 857 2SC''" "standard h = Some ''DIN EN 853 1SN''"
  shows "score_standard b h (s, m, r) =
         (s + 10, m + 20, r @ [''Standard compatible: EN 857 / EN 853''])"
  unfolding score_standard_def Let_def
  by (simp add: assms get_str_def en_853 en_857 upper_853 upper_857 group1_def)

text \<open>
  C4: for every pair of records where one standard is "DIN EN 853 1SN" and the other is
  "DIN EN 857 2SC", in either order and whatever the other fields, the standard section
  awards exactly the 10 cross-compatibility points, never the full 20: the family codes
  853 and 857 are compared as whole three-digit tokens. The reason recorded is
  "Standard compatible", and the raw points of the pair are at most 90.
\<close>

theorem standard_family_precision:
  assumes "(standard b = Some ''DIN EN 853 1SN'' \<and> standard h = Some ''DIN EN 857 2SC'')
         \<or> (standard b = Some ''DIN EN 857 2SC'' \<and> standard h = Some ''DIN EN 853 1SN'')"
  shows "fst (score_standard b h (s, m, r)) = s + 10
       \<and> fst (score_standard b h (s, m, r)) \<noteq> s + 20
       \<and> snd (snd (score_standard b h (s, m, r))) =
           r @ [if standard b = Some ''DIN EN 853 1SN''
                then ''Standard compatible: EN 853 / EN 857''
                else ''Standard compatible: EN 857 / EN 853'']
       \<and> (\<forall>s' m' r'. tally_hose int_of b h = Inr (s', m', r') \<longrightarrow> s' \<le> 90)"
proof -
  have pts: "\<And>s m r. fst (score_standard b h (s, m, r)) = s + 10"
    using assms by (auto simp: standard_853_857 standard_857_853)
  have "s' \<le> 90" if t: "tally_hose int_of b h = Inr (s', m', r')" for s' m' r'
  proof -
    from t obtain s1 m1 r1 s2 m2 r2 s3 m3 r3 s4 m4 r4 where
      d: "score_dn int_of b h (0, 0, []) = Inr (s1, m1, r1)" and
      p: "score_pressure b h (s1, m1, r1) = Inr (s2, m2, r2)" and
      st: "score_standard b h (s2, m2, r2) = (s3, m3, r3)" and
      c: "score_construction b h (s3, m3, r3) = (s4, m4, r4)" and
      i: "score_inner_diameter b h (s4, m4, r4) = Inr (s', m', r')"
      by (rule tally_hose_sections)
    from pts[of s2 m2 r2] st have "s3 = s2 + 10" by simp
    with score_dn_result[OF d] score_pressure_result[OF p]
      score_construction_result[OF c] score_inner_diameter_result[OF i]
    show ?thesis by auto
  qed
  with assms show ?thesis
    by (auto simp: standard_853_857 standard_857_853)
qed

theorem standard_family_precision_witness:
  "fst (score_standard wire_braid_853 compact_857 (0, 0, [])) = 10
   \<and> snd (snd (score_standard wire_braid_853 compact_857 (0, 0, []))) =
       [''Standard compatible: EN 853 / EN 857'']
   \<and> tally_hose dec_int wire_braid_853 compact_857 =
       Inr (10, 100, [''Standard compatible: EN 853 / EN 857''])
   \<and> (10 :: int) \<le> 90"
proof -
  have h: "(standard wire_braid_853 = Some ''DIN EN 853 1SN''
            \<and> standard compact_857 = Some ''DIN EN 857 2SC'')
         \<or> (standard wire_braid_853 = Some ''DIN EN 857 2SC''
            \<and> standard compact_857 = Some ''DIN EN 853 1SN'')"
    by (simp add: wire_braid_853_def compact_857_def empty_product_def)
  have t: "tally_hose dec_int wire_braid_853 compact_857 =
       Inr (10, 100, [''Standard compatible: EN 853 / EN 857''])"
    unfolding wire_braid_853_def compact_857_def by code_simp
  from standard_family_precision[OF h, of 0 0 "[]" dec_int] t
  show ?thesis by (simp add: wire_braid_853_def compact_857_def empty_product_def)
qed

section \<open>Rejection by the pre-checks\<close>

lemma angle_rejects:
  "truthy (angle h) \<Longrightarrow> truthy (angle b) \<Longrightarrow> angle h \<noteq> angle b \<Longrightarrow>
   \<exists>w. criterion_angle h b t = Inl w"
  by (cases t) (simp add: criterion_angle_def)

lemma series_rejects:
  "truthy (series h) \<Longrightarrow> truthy (series b) \<Longrightarrow> series h \<noteq> series b \<Longrightarrow>
   \<exists>w. criterion_series h b t = Inl w"
  by (cases t) (simp add: criterion_series_def)

lemma standard_rejects:
  "truthy (normalize_standard (standard h)) \<Longrightarrow> truthy (normalize_standard (standard b)) \<Longrightarrow>
   normalize_standard (standard h) \<noteq> normalize_standard (standard b) \<Longrightarrow>
   \<exists>w. criterion_standard h b t = Inl w"
  by (cases t) (simp add: criterion_standard_def)

lemma series_rejection:
  assumes "(truthy (angle h) \<and> truthy (angle b) \<and> angle h \<noteq> angle b)
         \<or> (truthy (series h) \<and> truthy (series b) \<and> series h \<noteq> series b)
         \<or> (truthy (normalize_standard (standard h)) \<and> truthy (normalize_standard (standard b))
             \<and> normalize_standard (standard h) \<noteq> normalize_standard (standard b))"
  shows "\<exists>w. calculate_match_score float_of h b = (0, [], [w])"
proof (cases "criterion_angle h b (0, [], [])")
  case (Inl w)
  then show ?thesis by (simp add: calculate_match_score_def)
next
  case a: (Inr t1)
  show ?thesis
  proof (cases "criterion_series h b t1")
    case (Inl w)
    with a show ?thesis by (simp add: calculate_match_score_def)
  next
    case s: (Inr t2)
    from a angle_rejects[of h b "(0, [], [])"] s series_rejects[of h b t1] assms
    have "\<exists>w. criterion_standard h b t2 = Inl w"
      using standard_rejects[of h b t2] by auto
    with a s show ?thesis by (auto simp: calculate_match_score_def)
  qed
qed

text \<open>
  C2 (as stated): on a rejected pair the reasons list is empty. For the textile hose and
  the wire-braid hose of the rejection scenario the hose scorer returns score 0 with a
  reasons list of one element, the text of the rejection.
\<close>

theorem rejection_reasons_counterexample:
  "construction_gate rejection_source rejection_target \<noteq> None
   \<and> calculate_match_score_hose dec_int rejection_source rejection_target =
       Inr (0, [''Construction mismatch: textile vs wire - INCOMPATIBLE''])
   \<and> calculate_match_score_hose dec_int rejection_source rejection_target \<noteq> Inr (0, [])"
  unfolding rejection_source_def rejection_target_def by code_simp

text \<open>
  C2 (amended): for every pair of hose records that the construction pre-check rejects,
  the hose scorer returns score exactly 0 and a reasons list holding only the text of the
  rejection; for every pair of fittings with an angle, series or normalized-standard
  mismatch, both sides known, the series-validated scorer returns score exactly 0, an
  empty reasons list and one warning.
\<close>

theorem gate_rejection_result:
  "(construction_gate balflex heizmann = Some message \<longrightarrow>
      calculate_match_score_hose int_of balflex heizmann = Inr (0, [message]))
   \<and> ((truthy (angle heizmann_item) \<and> truthy (angle balflex_item)
          \<and> angle heizmann_item \<noteq> angle balflex_item)
        \<or> (truthy (series heizmann_item) \<and> truthy (series balflex_item)
          \<and> series heizmann_item \<noteq> series balflex_item)
        \<or> (truthy (normalize_standard (standard heizmann_item))
          \<and> truthy (normalize_standard (standard balflex_item))
          \<and> normalize_standard (standard heizmann_item)
              \<noteq> normalize_standard (standard balflex_item))
       \<longrightarrow> (\<exists>w. calculate_match_score float_of heizmann_item balflex_item = (0, [], [w])))"
  using series_rejection[of heizmann_item balflex_item float_of]
  by (auto simp: calculate_match_score_hose_def)

theorem gate_rejection_result_witness:
  "calculate_match_score_hose dec_int rejection_source rejection_target =
     Inr (0, [''Construction mismatch: textile vs wire - INCOMPATIBLE''])
   \<and> (\<exists>w. calculate_match_score (\<lambda>s. Inl ValueError) elbow_fitting straight_fitting
             = (0, [], [w]))"
proof -
  have g: "construction_gate rejection_source rejection_target =
           Some ''Construction mismatch: textile vs wire - INCOMPATIBLE''"
    unfolding rejection_source_def rejection_target_def by code_simp
  have a: "truthy (angle elbow_fitting) \<and> truthy (angle straight_fitting)
           \<and> angle elbow_fitting \<noteq> angle straight_fitting"
    by (simp add: elbow_fitting_def straight_fitting_def empty_product_def truthy_def)
  from gate_rejection_result[of rejection_source rejection_target
      "''Construction mismatch: textile vs wire - INCOMPATIBLE''" dec_int
      elbow_fitting straight_fitting "\<lambda>s. Inl ValueError"] g a
  show ?thesis by blast
qed


section \<open>The end-to-end hose scenario\<close>

text \<open>
  C1 (as stated): the quality tier derived from score 90 is the text "Excellent". The
  hose matcher's label for a score of 90 is another text.
\<close>

theorem quality_label_counterexample:
  "score_to_quality 90 \<noteq> ''Excellent''"
  by (simp add: score_to_quality_def)

text \<open>
  C1 (amended): for the source record with dn "DN12", standard "DIN EN 857 2SC",
  construction "2 wire braid" and 25.0 MPa, and the target record with the same dn,
  standard and construction and 250 bar, the construction pre-check does not reject, the
  scorer returns exactly 90 with the four reasons DN match, pressure match (25.0 MPa on
  both sides after the conversion), standard match and construction match, and the
  quality derived from 90 is the top tier, labelled "Excellent Match".
\<close>

theorem end_to_end_scenario:
  "construction_gate scenario_source scenario_target = None
   \<and> calculate_match_score_hose int_of scenario_source scenario_target =
       Inr (90, [''DN match: DN12'',
                 ''Pressure match: 25.0 MPa '' @ approx_sign @ '' 25.0 MPa'',
                 ''Standard match: EN 857'',
                 ''Construction match: 2 wire braid''])
   \<and> score_to_quality 90 = ''Excellent Match''"
  unfolding scenario_source_def scenario_target_def by code_simp

section \<open>Rounding to the nearest double\<close>

declare ilog2.simps [simp del]

lemma pow2_powi: "pow2 k = 2 powi k"
  by (simp add: pow2_def power_int_def power_inverse [symmetric] inverse_eq_divide power_one_over)

lemma pow2_pos: "0 < pow2 k"
  by (simp add: pow2_powi)

lemma pow2_nat: "0 \<le> k \<Longrightarrow> pow2 k = of_int (2 ^ nat k)"
  by (simp add: pow2_def)

lemma pow2_diff: "pow2 (a - b) = pow2 a / pow2 b"
  by (simp add: pow2_powi power_int_diff)

lemma pow2_less: "a < b \<Longrightarrow> pow2 a < pow2 b"
  by (simp add: pow2_powi power_int_strict_increasing)

lemma ilog2_bounds:
  "1 \<le> n \<Longrightarrow> 0 \<le> ilog2 n \<and> 2 ^ nat (ilog2 n) \<le> n \<and> n < 2 ^ nat (ilog2 n + 1)"
proof (induction n rule: ilog2.induct)
  case (1 n)
  show ?case
  proof (cases "n < 2")
    case True
    with "1.prems" have "n = 1" by simp
    then show ?thesis by (simp add: ilog2.simps)
  next
    case False
    then have h: "1 \<le> n div 2" by simp
    from "1.IH"[OF False h] have
      a: "0 \<le> ilog2 (n div 2)" and
      b: "2 ^ nat (ilog2 (n div 2)) \<le> n div 2" and
      c: "n div 2 < 2 ^ nat (ilog2 (n div 2) + 1)" by auto
    have e: "ilog2 n = 1 + ilog2 (n div 2)" using False by (subst ilog2.simps) simp
    have n1: "nat (1 + ilog2 (n div 2)) = Suc (nat (ilog2 (n div 2)))" using a by simp
    have n2: "nat (1 + ilog2 (n div 2) + 1) = Suc (Suc (nat (ilog2 (n div 2))))" using a by simp
    have n3: "nat (ilog2 (n div 2) + 1) = Suc (nat (ilog2 (n div 2)))" using a by simp
    from b have "2 * 2 ^ nat (ilog2 (n div 2)) \<le> n" by linarith
    moreover from c have "n < 2 * (2 * 2 ^ nat (ilog2 (n div 2)))" unfolding n3 by simp
    ultimately show ?thesis unfolding e n1 n2 using a by simp
  qed
qed

lemma float_exponent_le:
  assumes "0 < x"
  shows "pow2 (float_exponent x) \<le> x"
proof -
  obtain p q where pq: "quotient_of x = (p, q)" by (cases "quotient_of x") auto
  then have q: "0 < q" and x: "x = of_int p / of_int q"
    by (auto dest: quotient_of_denom_pos quotient_of_div)
  with assms have p: "0 < p" by (simp add: zero_less_divide_iff)
  let ?a = "ilog2 p" and ?b = "ilog2 q"
  from ilog2_bounds[of p] p have a: "0 \<le> ?a" "2 ^ nat ?a \<le> p" by auto
  from ilog2_bounds[of q] q have b: "0 \<le> ?b" "q < 2 ^ nat (?b + 1)" by auto
  have A: "(2::rat) ^ nat ?a \<le> of_int p"
    using a(2) of_int_le_iff[of "2 ^ nat ?a" p, where ?'a = rat] by simp
  have B: "(of_int q :: rat) \<le> 2 ^ nat (?b + 1)"
    using b(2) of_int_le_iff[of q "2 ^ nat (?b + 1)", where ?'a = rat] by simp
  have "pow2 (?a - ?b - 1) = pow2 ?a / pow2 (?b + 1)"
    using pow2_diff[of ?a "?b + 1"] by (simp add: algebra_simps)
  also have "\<dots> = 2 ^ nat ?a / 2 ^ nat (?b + 1)"
    using a b by (simp add: pow2_def)
  also have "\<dots> \<le> of_int p / of_int q"
    by (rule frac_le) (use A B p q in simp_all)
  finally have low: "pow2 (?a - ?b - 1) \<le> x" using x by simp
  show ?thesis
    using low by (simp add: float_exponent_def pq Let_def)
qed

lemma rhe_le: "y \<le> of_int n \<Longrightarrow> round_half_even y \<le> n"
  unfolding round_half_even_def Let_def
  by (auto simp: floor_le_iff)

lemma rhe_ge: "of_int n \<le> y \<Longrightarrow> n \<le> round_half_even y"
  unfolding round_half_even_def Let_def
  by (auto simp: le_floor_iff; linarith)

lemma rhe_err: "\<bar>of_int (round_half_even y) - y\<bar> \<le> 1 / 2"
  using floor_correct[of y] unfolding round_half_even_def Let_def
  by (auto simp: abs_le_iff; linarith)

lemma rd_pos:
  "0 < x \<Longrightarrow>
   rd x = of_int (round_half_even (x / pow2 (float_exponent x - 52))) * pow2 (float_exponent x - 52)"
  by (simp add: rd_def Let_def)

lemma rd_nonneg: "0 \<le> x \<Longrightarrow> 0 \<le> rd x"
proof (cases "x = 0")
  case True then show ?thesis by (simp add: rd_def)
next
  case False
  assume "0 \<le> x"
  with False have x: "0 < x" by simp
  have "0 \<le> x / pow2 (float_exponent x - 52)" using x pow2_pos by (simp add: less_imp_le)
  then have "0 \<le> round_half_even (x / pow2 (float_exponent x - 52))"
    using rhe_ge[of 0] by simp
  then show ?thesis using pow2_pos[of "float_exponent x - 52"] by (simp add: rd_pos[OF x])
qed

lemma rd_le_int:
  assumes "0 \<le> x" "x \<le> of_int c" "c < 2 ^ 53"
  shows "rd x \<le> of_int c"
proof (cases "x = 0")
  case True with assms show ?thesis by (simp add: rd_def)
next
  case False
  with assms have x: "0 < x" by simp
  let ?e = "float_exponent x"
  let ?u = "pow2 (?e - 52)"
  have "pow2 ?e \<le> x" by (rule float_exponent_le[OF x])
  also have "x \<le> of_int c" by fact
  also have "(of_int c :: rat) < 2 ^ 53"
    using assms(3) of_int_less_iff[of c "2 ^ 53", where ?'a = rat] by simp
  also have "(2::rat) ^ 53 = pow2 53" by (simp add: pow2_def)
  finally have "pow2 ?e < pow2 53" .
  then have e: "?e < 53" using pow2_less[of 53 ?e] by (cases "?e < 53") (auto simp: not_less le_less)
  then have u: "?u = 1 / 2 ^ nat (52 - ?e)"
    using pow2_diff[of 0 "52 - ?e"] by (simp add: pow2_def)
  have "x / ?u \<le> of_int c / ?u" using assms(2) pow2_pos[of "?e - 52"] by (simp add: divide_right_mono less_imp_le)
  also have "of_int c / ?u = of_int (c * 2 ^ nat (52 - ?e))" by (simp add: u)
  finally have "round_half_even (x / ?u) \<le> c * 2 ^ nat (52 - ?e)" by (rule rhe_le)
  then have "(of_int (round_half_even (x / ?u)) :: rat) \<le> of_int (c * 2 ^ nat (52 - ?e))"
    by (simp only: of_int_le_iff)
  then have "of_int (round_half_even (x / ?u)) * ?u \<le> of_int (c * 2 ^ nat (52 - ?e)) * ?u"
    using pow2_pos[of "?e - 52"] by (simp add: mult_right_mono less_imp_le)
  also have "of_int (c * 2 ^ nat (52 - ?e)) * ?u = of_int c" by (simp add: u)
  finally show ?thesis by (simp add: rd_pos[OF x])
qed

lemma rd_rel_err:
  assumes "0 \<le> x"
  shows "\<bar>rd x - x\<bar> \<le> x / 2 ^ 53"
proof (cases "x = 0")
  case True then show ?thesis by (simp add: rd_def)
next
  case False
  with assms have x: "0 < x" by simp
  let ?e = "float_exponent x"
  let ?u = "pow2 (?e - 52)"
  have up: "0 < ?u" by (rule pow2_pos)
  have "rd x - x = (of_int (round_half_even (x / ?u)) - x / ?u) * ?u"
    using up by (simp add: rd_pos[OF x] left_diff_distrib)
  then have "\<bar>rd x - x\<bar> = \<bar>of_int (round_half_even (x / ?u)) - x / ?u\<bar> * ?u"
    using up by (simp add: abs_mult)
  also have "\<dots> \<le> (1 / 2) * ?u"
    using rhe_err[of "x / ?u"] up by (intro mult_right_mono) (auto simp: less_imp_le)
  also have "(1 / 2) * ?u = pow2 ?e / 2 ^ 53"
    using pow2_diff[of ?e 52] by (simp add: pow2_def)
  also have "\<dots> \<le> x / 2 ^ 53"
    using float_exponent_le[OF x] by (simp add: divide_right_mono)
  finally show ?thesis .
qed

lemma rd_zero_iff: "rd x = 0 \<longleftrightarrow> x = 0"
proof (cases "x = 0")
  case True then show ?thesis by (simp add: rd_def)
next
  case False
  let ?y = "\<bar>x\<bar>"
  have y: "0 < ?y" using False by simp
  let ?u = "pow2 (float_exponent ?y - 52)"
  have up: "0 < ?u" by (rule pow2_pos)
  have "pow2 (float_exponent ?y) \<le> ?y" by (rule float_exponent_le[OF y])
  then have "pow2 (float_exponent ?y) / ?u \<le> ?y / ?u"
    using up by (simp add: divide_right_mono less_imp_le)
  moreover have "pow2 (float_exponent ?y) / ?u = 2 ^ 52"
    using pow2_diff[of "float_exponent ?y" "float_exponent ?y - 52"] by (simp add: pow2_def)
  ultimately have "of_int 1 \<le> ?y / ?u"
    by simp
  then have "1 \<le> round_half_even (?y / ?u)" by (rule rhe_ge)
  then have "of_int (round_half_even (?y / ?u)) \<noteq> (0::rat)" by simp
  with up False show ?thesis by (simp add: rd_def Let_def sgn_if)
qed

lemma normalized_range:
  assumes "0 \<le> s" "s \<le> 100"
  shows "0 \<le> normalized_score s 100 \<and> normalized_score s 100 \<le> 100
         \<and> \<bar>normalized_score s 100 - of_int s\<bar> \<le> 1 / 2 ^ 45"
proof -
  let ?q = "of_int s / 100 :: rat"
  let ?a = "rd ?q"
  let ?y = "?a * 100"
  have s0: "(0::rat) \<le> of_int s" and s1: "(of_int s :: rat) \<le> 100" using assms by simp_all
  have q0: "0 \<le> ?q" and q1: "?q \<le> of_int 1" using s0 s1 by simp_all
  have a0: "0 \<le> ?a" by (rule rd_nonneg[OF q0])
  have a1: "?a \<le> of_int 1" by (rule rd_le_int[OF q0 q1]) simp
  have y0: "0 \<le> ?y" using a0 by simp
  have y1: "?y \<le> of_int 100" using a1 by simp
  have n: "normalized_score s 100 = rd ?y" by (simp add: normalized_score_def fmul_def fdiv_def)
  have r0: "0 \<le> rd ?y" by (rule rd_nonneg[OF y0])
  have r1: "rd ?y \<le> of_int 100" by (rule rd_le_int[OF y0 y1]) simp
  have e1: "\<bar>?a - ?q\<bar> \<le> ?q / 2 ^ 53" by (rule rd_rel_err[OF q0])
  have e2: "\<bar>rd ?y - ?y\<bar> \<le> ?y / 2 ^ 53" by (rule rd_rel_err[OF y0])
  have h: "?y - of_int s = (?a - ?q) * 100" by (simp add: left_diff_distrib)
  have "\<bar>?y - of_int s\<bar> = \<bar>(?a - ?q) * 100\<bar>" by (simp only: h)
  also have "\<dots> = \<bar>?a - ?q\<bar> * 100" by (simp only: abs_mult)
  also have "\<dots> \<le> (?q / 2 ^ 53) * 100" using e1 by simp
  also have "\<dots> \<le> 100 / 2 ^ 53" using s1 by simp
  finally have e3: "\<bar>?y - of_int s\<bar> \<le> 100 / 2 ^ 53" .
  have e4: "\<bar>rd ?y - ?y\<bar> \<le> 100 / 2 ^ 53"
    using e2 y1 by (simp add: divide_right_mono order_trans[OF e2])
  have "\<bar>rd ?y - of_int s\<bar> \<le> \<bar>rd ?y - ?y\<bar> + \<bar>?y - of_int s\<bar>" by simp
  also have "\<dots> \<le> 100 / 2 ^ 53 + 100 / 2 ^ 53" using e3 e4 by (rule add_mono[rotated])
  also have "\<dots> \<le> 1 / 2 ^ 45" by simp
  finally show ?thesis using r0 r1 n by simp
qed

section \<open>The hose scorer returns, and within range\<close>

lemma diff_percent_returns: "a \<noteq> 0 \<Longrightarrow> b \<noteq> 0 \<Longrightarrow> \<exists>d. diff_percent a b = Inr d"
  by (auto simp: diff_percent_def max_def)

lemma pressure_in_mpa_nonzero: "p \<noteq> 0 \<Longrightarrow> pressure_in_mpa q p \<noteq> 0"
  by (simp add: pressure_in_mpa_def fdiv_def rd_zero_iff)

lemma score_pressure_returns: "\<exists>t'. score_pressure b h t = Inr t'"
proof (cases t)
  case (fields s m r)
  show ?thesis
  proof (cases "truthy_num (por (working_pressure_mpa b) (working_pressure_bar b))
              \<and> truthy_num (por (working_pressure_mpa h) (working_pressure_bar h))")
    case True
    then have "num_of (por (working_pressure_mpa b) (working_pressure_bar b)) \<noteq> 0"
      "num_of (por (working_pressure_mpa h) (working_pressure_bar h)) \<noteq> 0"
      by (auto simp: truthy_num_def num_of_def split: option.splits)
    then obtain d where
      "diff_percent (pressure_in_mpa b (num_of (por (working_pressure_mpa b) (working_pressure_bar b))))
         (pressure_in_mpa h (num_of (por (working_pressure_mpa h) (working_pressure_bar h)))) = Inr d"
      using diff_percent_returns pressure_in_mpa_nonzero by blast
    with True fields show ?thesis
      by (simp add: score_pressure_def Let_def and_then_def)
  next
    case False
    with fields show ?thesis by (auto simp: score_pressure_def Let_def)
  qed
qed

lemma score_inner_diameter_returns: "\<exists>t'. score_inner_diameter b h t = Inr t'"
proof (cases t)
  case (fields s m r)
  show ?thesis
  proof (cases "truthy_num (inner_diameter_mm b) \<and> truthy_num (inner_diameter_mm h)")
    case True
    then have "num_of (inner_diameter_mm b) \<noteq> 0" "num_of (inner_diameter_mm h) \<noteq> 0"
      by (auto simp: truthy_num_def num_of_def split: option.splits)
    then obtain d where
      "diff_percent (num_of (inner_diameter_mm b)) (num_of (inner_diameter_mm h)) = Inr d"
      using diff_percent_returns by blast
    with True fields show ?thesis
      by (simp add: score_inner_diameter_def and_then_def)
  next
    case False
    with fields show ?thesis by (auto simp: score_inner_diameter_def)
  qed
qed

lemma tally_hose_returns:
  assumes "score_dn int_of b h (0, 0, []) = Inr t1"
  shows "\<exists>t. tally_hose int_of b h = Inr t"
proof -
  obtain t2 where p: "score_pressure b h t1 = Inr t2" using score_pressure_returns by blast
  obtain t where "score_inner_diameter b h (score_construction b h (score_standard b h t2)) = Inr t"
    using score_inner_diameter_returns by blast
  with assms p have "tally_hose int_of b h = Inr t" by (simp add: tally_hose_def and_then_def)
  then show ?thesis by blast
qed

lemma hose_scorer_returns:
  assumes "score_dn int_of b h (0, 0, []) = Inr t1"
  shows "\<exists>x rs. calculate_match_score_hose int_of b h = Inr (x, rs)"
proof -
  from tally_hose_returns[OF assms] obtain s m r where "tally_hose int_of b h = Inr (s, m, r)"
    by (metis prod_cases3)
  then show ?thesis
    by (auto simp: calculate_match_score_hose_def and_then_def split: option.splits)
qed

lemma hose_score_range:
  assumes "calculate_match_score_hose int_of b h = Inr (x, rs)"
  shows "0 \<le> x \<and> x \<le> 100"
proof (cases "construction_gate b h")
  case (Some msg)
  with assms show ?thesis by (simp add: calculate_match_score_hose_def)
next
  case None
  with assms obtain s m r where t: "tally_hose int_of b h = Inr (s, m, r)"
    and x: "x = normalized_score s m"
    by (auto simp: calculate_match_score_hose_def and_then_def split: sum.splits)
  from tally_hose_result[OF t] normalized_range[of s] x show ?thesis by auto
qed

section \<open>Points awarded by the fittings criteria\<close>

lemma criterion_angle_points:
  "criterion_angle h b (s, r, w) = Inr (s', r', w') \<Longrightarrow> s' = s \<or> s' = s + 20"
  by (auto simp: criterion_angle_def Let_def split: if_splits)

lemma criterion_series_points:
  "criterion_series h b (s, r, w) = Inr (s', r', w') \<Longrightarrow> s' = s \<or> s' = s + 20"
  by (auto simp: criterion_series_def Let_def split: if_splits)

lemma criterion_standard_points:
  "criterion_standard h b (s, r, w) = Inr (s', r', w') \<Longrightarrow> s' = s \<or> s' = s + 30"
  by (auto simp: criterion_standard_def Let_def split: if_splits)

lemma criterion_dn_points:
  "criterion_dn float_of h b (s, r, w) = (s', r', w') \<Longrightarrow>
   s' = s \<or> s' = s + 12 \<or> s' = s + 25"
  by (auto simp: criterion_dn_def Let_def split: if_splits sum.splits prod.splits)

lemma criterion_seat_points:
  "criterion_seat h b (s, r, w) = (s', r', w') \<Longrightarrow> s' = s \<or> s' = s + 5"
  by (auto simp: criterion_seat_def Let_def split: if_splits)

lemma criterion_gender_points:
  "criterion_gender h b (s, r, w) = (s', r', w') \<Longrightarrow> s' = s"
  by (auto simp: criterion_gender_def Let_def split: if_splits)

lemma add_warnings_points: "fst (add_warnings (s, r, w)) = s"
  by (simp add: add_warnings_def)

lemma series_score_range:
  "0 \<le> fst (calculate_match_score float_of h b) \<and> fst (calculate_match_score float_of h b) \<le> 100"
proof (cases "criterion_angle h b (0, [], [])")
  case (Inl w)
  then show ?thesis by (simp add: calculate_match_score_def)
next
  case a: (Inr t1)
  obtain s1 r1 w1 where t1: "t1 = (s1, r1, w1)" by (cases t1) auto
  show ?thesis
  proof (cases "criterion_series h b t1")
    case (Inl w)
    with a show ?thesis by (simp add: calculate_match_score_def)
  next
    case s: (Inr t2)
    obtain s2 r2 w2 where t2: "t2 = (s2, r2, w2)" by (cases t2) auto
    show ?thesis
    proof (cases "criterion_standard h b t2")
      case (Inl w)
      with a s show ?thesis by (simp add: calculate_match_score_def)
    next
      case st: (Inr t3)
      obtain s3 r3 w3 where t3: "t3 = (s3, r3, w3)" by (cases t3) auto
      obtain s4 r4 w4 where d: "criterion_dn float_of h b (s3, r3, w3) = (s4, r4, w4)"
        by (cases "criterion_dn float_of h b (s3, r3, w3)") auto
      obtain s5 r5 w5 where se: "criterion_seat h b (s4, r4, w4) = (s5, r5, w5)"
        by (cases "criterion_seat h b (s4, r4, w4)") auto
      obtain s6 r6 w6 where g: "criterion_gender h b (s5, r5, w5) = (s6, r6, w6)"
        by (cases "criterion_gender h b (s5, r5, w5)") auto
      have res: "fst (calculate_match_score float_of h b) = s6"
        using a s st t3 d se g by (simp add: calculate_match_score_def add_warnings_points)
      from criterion_angle_points[OF a[unfolded t1]]
        criterion_series_points[OF s[unfolded t1 t2]]
        criterion_standard_points[OF st[unfolded t2 t3]]
        criterion_dn_points[OF d] criterion_seat_points[OF se] criterion_gender_points[OF g]
      show ?thesis unfolding res by auto
    qed
  qed
qed

lemma thread_score_points: "thread_score bal heiz = 0 \<or> thread_score bal heiz = 40"
  by (simp add: thread_score_def Let_def)

lemma dash_score_points:
  "dash_score int_of bal heiz = 0 \<or> dash_score int_of bal heiz = 20
   \<or> dash_score int_of bal heiz = 30"
  by (simp add: dash_score_def Let_def)

lemma category_score_points:
  "category_score bal heiz = 0 \<or> category_score bal heiz = 10 \<or> category_score bal heiz = 15"
  by (simp add: category_score_def Let_def)

lemma hose_size_score_points:
  "hose_size_score float_of bal heiz = 0 \<or> hose_size_score float_of bal heiz = 10
   \<or> hose_size_score float_of bal heiz = 15"
  by (simp add: hose_size_score_def Let_def split: sum.splits option.splits prod.splits)

lemma thread_score_range:
  "0 \<le> calculate_score float_of int_of bal heiz \<and> calculate_score float_of int_of bal heiz \<le> 100"
  using thread_score_points[of bal heiz] dash_score_points[of int_of bal heiz]
    category_score_points[of bal heiz] hose_size_score_points[of float_of bal heiz]
  unfolding calculate_score_def by linarith

section \<open>Score boundedness\<close>

text \<open>
  C7: for all pairs of records, the score returned by each scorer is between 0 and 100:
  the hose scorer whenever it returns (and it returns whenever the DN section raises no
  exception: the pressure and diameter divisions cannot fail), the series-validated
  fittings scorer and the thread-and-size fittings scorer always.
\<close>

theorem score_boundedness:
  "(calculate_match_score_hose int_of balflex heizmann = Inr (x, rs) \<longrightarrow> 0 \<le> x \<and> x \<le> 100)
   \<and> ((\<exists>t. score_dn int_of balflex heizmann (0, 0, []) = Inr t) \<longrightarrow>
        (\<exists>y ys. calculate_match_score_hose int_of balflex heizmann = Inr (y, ys)))
   \<and> 0 \<le> fst (calculate_match_score float_of heizmann_item balflex_item)
   \<and> fst (calculate_match_score float_of heizmann_item balflex_item) \<le> 100
   \<and> 0 \<le> calculate_score float_of' int_of' bal heiz
   \<and> calculate_score float_of' int_of' bal heiz \<le> 100"
  using hose_score_range[of int_of balflex heizmann x rs]
    hose_scorer_returns[of int_of balflex heizmann]
    series_score_range[of float_of heizmann_item balflex_item]
    thread_score_range[of float_of' int_of' bal heiz]
  by blast

theorem score_boundedness_witness:
  "score_dn dec_int scenario_source scenario_target (0, 0, []) = Inr (30, 30, [''DN match: DN12''])
   \<and> (\<exists>y ys. calculate_match_score_hose dec_int scenario_source scenario_target = Inr (y, ys)
         \<and> 0 \<le> y \<and> y \<le> 100)"
proof -
  have d: "score_dn dec_int scenario_source scenario_target (0, 0, [])
           = Inr (30, 30, [''DN match: DN12''])"
    unfolding scenario_source_def scenario_target_def by code_simp
  from score_boundedness[of dec_int scenario_source scenario_target] d
  obtain y ys where r: "calculate_match_score_hose dec_int scenario_source scenario_target
                        = Inr (y, ys)"
    by blast
  from score_boundedness[of dec_int scenario_source scenario_target y ys] r
  have "0 \<le> y \<and> y \<le> 100" by blast
  with d r show ?thesis by blast
qed

section \<open>Normalization of the hose score\<close>

text \<open>
  C10 (as stated): the returned score always equals the raw sum of awarded points. For
  two records with the same DN and the same pressure the raw sum is 55 and
  \<open>max_score\<close> is 100, and the score returned is the double next above 55.
\<close>

theorem normalization_counterexample:
  "tally_hose dec_int rounding_source rounding_target =
     Inr (55, 100, [''DN match: DN12'',
                    ''Pressure match: 25.0 MPa '' @ approx_sign @ '' 25.0 MPa''])
   \<and> calculate_match_score_hose dec_int rounding_source rounding_target =
     Inr (7740561859543041 / 140737488355328,
          [''DN match: DN12'',
           ''Pressure match: 25.0 MPa '' @ approx_sign @ '' 25.0 MPa''])
   \<and> (7740561859543041 / 140737488355328 :: rat) \<noteq> 55"
  unfolding rounding_source_def rounding_target_def by code_simp

text \<open>
  C10 (amended): on every pair that reaches the normalization step, \<open>max_score\<close> is
  100, each criterion having added its weight whatever fields are present; the division
  by \<open>max_score\<close> and multiplication by 100 are the identity in exact arithmetic, and
  the score returned, computed in doubles, differs from the raw sum of awarded points by
  at most \<open>2^-45\<close>.
\<close>

theorem normalization_of_hose_score:
  assumes "tally_hose int_of balflex heizmann = Inr (score, max_score, reasons)"
  shows "max_score = 100
       \<and> (of_int score / of_int max_score) * 100 = (of_int score :: rat)
       \<and> (construction_gate balflex heizmann = None \<longrightarrow>
            calculate_match_score_hose int_of balflex heizmann =
              Inr (normalized_score score 100, reasons))
       \<and> \<bar>normalized_score score 100 - of_int score\<bar> \<le> 1 / 2 ^ 45"
proof -
  from tally_hose_result[OF assms] have m: "max_score = 100" and s: "0 \<le> score" "score \<le> 100"
    by auto
  from normalized_range[OF s] have "\<bar>normalized_score score 100 - of_int score\<bar> \<le> 1 / 2 ^ 45"
    by simp
  with m assms show ?thesis
    by (simp add: calculate_match_score_hose_def and_then_def)
qed

theorem normalization_of_hose_score_witness:
  "tally_hose dec_int rounding_source rounding_target =
     Inr (55, 100, [''DN match: DN12'',
                    ''Pressure match: 25.0 MPa '' @ approx_sign @ '' 25.0 MPa''])
   \<and> construction_gate rounding_source rounding_target = None
   \<and> calculate_match_score_hose dec_int rounding_source rounding_target =
       Inr (normalized_score 55 100,
            [''DN match: DN12'',
             ''Pressure match: 25.0 MPa '' @ approx_sign @ '' 25.0 MPa''])
   \<and> \<bar>normalized_score 55 100 - 55\<bar> \<le> 1 / 2 ^ 45"
proof -
  have t: "tally_hose dec_int rounding_source rounding_target =
     Inr (55, 100, [''DN match: DN12'',
                    ''Pressure match: 25.0 MPa '' @ approx_sign @ '' 25.0 MPa''])"
    unfolding rounding_source_def rounding_target_def by code_simp
  have g: "construction_gate rounding_source rounding_target = None"
    unfolding rounding_source_def rounding_target_def by code_simp
  from normalization_of_hose_score[OF t] g t show ?thesis by simp
qed

section \<open>A missing attribute\<close>

lemma lower_empty: "lower s = [] \<longleftrightarrow> s = []"
  by (simp add: lower_def)

lemma upper_empty: "upper s = [] \<longleftrightarrow> s = []"
  by (simp add: upper_def)

lemma get_str_empty: "get_str v = [] \<longleftrightarrow> \<not> truthy v"
  by (simp add: get_str_def truthy_def split: option.splits)

lemma construction_absent:
  assumes "\<not> truthy (construction balflex) \<or> \<not> truthy (construction heizmann)"
  shows "construction_gate balflex heizmann = None"
    and "score_construction balflex heizmann (s, m, r) = (s, m + 15, r)"
  using assms
  by (auto simp: construction_gate_def score_construction_def Let_def lower_empty get_str_empty)

lemma angle_absent:
  assumes "\<not> truthy (angle h) \<or> \<not> truthy (angle b)"
  shows "\<exists>w'. criterion_angle h b (p, q, w) = Inr (p, q, w')"
  using assms by (auto simp: criterion_angle_def Let_def)

lemma series_absent:
  assumes "\<not> truthy (series h) \<or> \<not> truthy (series b)"
  shows "\<exists>w'. criterion_series h b (p, q, w) = Inr (p, q, w')"
  using assms by (auto simp: criterion_series_def Let_def)

lemma normalize_standard_absent: "\<not> truthy std \<Longrightarrow> \<not> truthy (normalize_standard std)"
  by (simp add: normalize_standard_def truthy_def)

lemma standard_absent:
  assumes "\<not> truthy (standard h) \<or> \<not> truthy (standard b)"
  shows "\<exists>w'. criterion_standard h b (p, q, w) = Inr (p, q, w')"
proof -
  from assms have "\<not> truthy (normalize_standard (standard h))
                   \<or> \<not> truthy (normalize_standard (standard b))"
    using normalize_standard_absent by blast
  then show ?thesis by (auto simp: criterion_standard_def Let_def)
qed

lemma thread_absent:
  assumes "\<not> truthy (thread_type bal) \<or> \<not> truthy (thread_type heiz)"
  shows "thread_score bal heiz = 0" and "\<not> threads_compatible bal heiz"
  using assms
  by (auto simp: thread_score_def threads_compatible_def Let_def upper_empty get_str_empty)

lemma best_thread_fitting_excluded:
  "(\<And>heiz. heiz \<in> set hs \<Longrightarrow> \<not> threads_compatible bal heiz) \<Longrightarrow>
   best_thread_fitting float_of int_of bal hs acc = acc"
proof (induction hs)
  case Nil
  then show ?case by simp
next
  case (Cons heiz hs)
  then show ?case by (cases acc) (simp add: Let_def)
qed

lemma thread_absent_no_match:
  assumes "\<not> truthy (thread_type bal)"
  shows "match_one_thread float_of int_of bal heizmann_fittings = None"
proof -
  have "best_thread_fitting float_of int_of bal (valid_heizmann heizmann_fittings) (None, 0)
        = (None, 0)"
    by (rule best_thread_fitting_excluded) (use assms thread_absent(2) in blast)
  then show ?thesis by (simp add: match_one_thread_def)
qed

text \<open>
  C5 (as stated): a missing thread type does not exclude the candidate. The
  manufacturer's fitting without a thread type scores 60 against the distributor's
  fitting, above the matcher's minimum of 55, and is left unmatched; with a thread type it
  is matched.
\<close>

theorem missing_thread_counterexample:
  "\<not> truthy (thread_type bal_without_thread)
   \<and> calculate_score dec_float dec_int bal_without_thread heiz_with_thread = 60
   \<and> \<not> threads_compatible bal_without_thread heiz_with_thread
   \<and> match_one_thread dec_float dec_int bal_without_thread [heiz_with_thread] = None
   \<and> match_one_thread dec_float dec_int (bal_without_thread\<lparr>thread_type := Some ''BSP''\<rparr>)
         [heiz_with_thread] \<noteq> None"
  unfolding bal_without_thread_def heiz_with_thread_def by code_simp

text \<open>
  C5 (amended): for every pair of records, when the construction (hose scorer), the angle,
  the series or the standard (series-validated fittings scorer) is absent on at least one
  side, the pre-check of that attribute does not reject and the criterion earns zero
  points. When the thread type is absent on at least one side, the thread criterion of
  the thread-and-size scorer earns zero points, and the thread compatibility check of the
  matcher excludes the candidate: a manufacturer fitting without a thread type is never
  matched.
\<close>

theorem missing_attribute:
  "((\<not> truthy (construction balflex) \<or> \<not> truthy (construction heizmann)) \<longrightarrow>
      construction_gate balflex heizmann = None
      \<and> score_construction balflex heizmann (s, m, r) = (s, m + 15, r))
   \<and> ((\<not> truthy (angle heizmann_item) \<or> \<not> truthy (angle balflex_item)) \<longrightarrow>
      (\<exists>w'. criterion_angle heizmann_item balflex_item (p, q, w) = Inr (p, q, w')))
   \<and> ((\<not> truthy (series heizmann_item) \<or> \<not> truthy (series balflex_item)) \<longrightarrow>
      (\<exists>w'. criterion_series heizmann_item balflex_item (p, q, w) = Inr (p, q, w')))
   \<and> ((\<not> truthy (standard heizmann_item) \<or> \<not> truthy (standard balflex_item)) \<longrightarrow>
      (\<exists>w'. criterion_standard heizmann_item balflex_item (p, q, w) = Inr (p, q, w')))
   \<and> ((\<not> truthy (thread_type bal) \<or> \<not> truthy (thread_type heiz)) \<longrightarrow>
      thread_score bal heiz = 0 \<and> \<not> threads_compatible bal heiz)
   \<and> (\<not> truthy (thread_type bal) \<longrightarrow>
      match_one_thread float_of int_of bal heizmann_fittings = None)"
  using construction_absent(1)[of balflex heizmann]
    construction_absent(2)[of balflex heizmann s m r]
    angle_absent[of heizmann_item balflex_item p q w]
    series_absent[of heizmann_item balflex_item p q w]
    standard_absent[of heizmann_item balflex_item p q w]
    thread_absent(1)[of bal heiz] thread_absent(2)[of bal heiz]
    thread_absent_no_match[of bal float_of int_of heizmann_fittings]
  by blast

theorem missing_attribute_witness:
  "construction_gate rounding_source rounding_target = None
   \<and> score_construction rounding_source rounding_target (55, 80, []) = (55, 95, [])
   \<and> (\<exists>w'. criterion_angle empty_product straight_fitting (0, [], []) = Inr (0, [], w'))
   \<and> (\<exists>w'. criterion_series empty_product straight_fitting (0, [], []) = Inr (0, [], w'))
   \<and> (\<exists>w'. criterion_standard empty_product straight_fitting (0, [], []) = Inr (0, [], w'))
   \<and> thread_score bal_without_thread heiz_with_thread = 0
   \<and> \<not> threads_compatible bal_without_thread heiz_with_thread
   \<and> match_one_thread dec_float dec_int bal_without_thread [heiz_with_thread] = None"
proof -
  have c: "\<not> truthy (construction rounding_source) \<or> \<not> truthy (construction rounding_target)"
    by (simp add: rounding_source_def empty_product_def truthy_def)
  have a: "\<not> truthy (angle empty_product) \<or> \<not> truthy (angle straight_fitting)"
    "\<not> truthy (series empty_product) \<or> \<not> truthy (series straight_fitting)"
    "\<not> truthy (standard empty_product) \<or> \<not> truthy (standard straight_fitting)"
    by (simp_all add: empty_product_def truthy_def)
  have t: "\<not> truthy (thread_type bal_without_thread)"
    by (simp add: bal_without_thread_def empty_product_def truthy_def)
  from missing_attribute[of rounding_source rounding_target 55 80 "[]"
      empty_product straight_fitting 0 "[]" "[]" bal_without_thread heiz_with_thread
      dec_float dec_int "[heiz_with_thread]"] c a t
  show ?thesis by simp
qed

end
